theory Spec2Isabelle
  imports Complex_Main
begin

section \<open>Values, errors and tensors\<close>

text \<open>
  The notebook \<^verbatim>\<open>Conditional-GAN-training.ipynb\<close> is a linear Python script over
  PyTorch, NumPy, torchvision and matplotlib. Its own code is embedded below; the
  libraries are collaborators, whose behaviour enters through a \<open>framework\<close> record.
  Sizes and counts (batch size, number of classes, dimensions, epoch numbers) are
  \<open>nat\<close>; label tensors (\<^verbatim>\<open>LongTensor\<close>) hold \<open>int\<close>.
\<close>

subsection \<open>Floating-point values\<close>

text \<open>
  A float is a finite value, an infinity or NaN. Tensor entries are single precision
  (\<^verbatim>\<open>FloatTensor\<close>), Python floats are double precision; the two differ here in
  the largest finite value. An operation computes the exact result and replaces a
  result beyond the largest finite value by an infinity; infinities and NaN follow
  IEEE 754. Rounding of results within range and the sign of zero are not modelled.
\<close>

datatype fl = Fin real | PInf | NInf | NaN

definition FLT_MAX :: real where
  "FLT_MAX = 340282346638528859811704183484516925440"

definition DBL_MAX :: real where
  "DBL_MAX = 2 ^ 1024 - 2 ^ 971"

definition overflow :: "real \<Rightarrow> real \<Rightarrow> fl" where
  "overflow mx r = (if mx < r then PInf else if r < - mx then NInf else Fin r)"


fun add_fl :: "real \<Rightarrow> fl \<Rightarrow> fl \<Rightarrow> fl" where
  "add_fl mx (Fin a) (Fin b) = overflow mx (a + b)"
| "add_fl mx NaN y = NaN"
| "add_fl mx x NaN = NaN"
| "add_fl mx PInf NInf = NaN"
| "add_fl mx NInf PInf = NaN"
| "add_fl mx PInf y = PInf"
| "add_fl mx x PInf = PInf"
| "add_fl mx NInf y = NInf"
| "add_fl mx x NInf = NInf"

fun neg_fl :: "fl \<Rightarrow> fl" where
  "neg_fl (Fin a) = Fin (- a)"
| "neg_fl PInf = NInf"
| "neg_fl NInf = PInf"
| "neg_fl NaN = NaN"

definition sub_fl :: "real \<Rightarrow> fl \<Rightarrow> fl \<Rightarrow> fl" where
  "sub_fl mx x y = add_fl mx x (neg_fl y)"

text \<open>The product of an infinity and a finite value: NaN for zero, else by the sign.\<close>

definition inf_times :: "fl \<Rightarrow> real \<Rightarrow> fl" where
  "inf_times x a = (if a = 0 then NaN else if 0 < a then x else neg_fl x)"

fun mul_fl :: "real \<Rightarrow> fl \<Rightarrow> fl \<Rightarrow> fl" where
  "mul_fl mx (Fin a) (Fin b) = overflow mx (a * b)"
| "mul_fl mx NaN y = NaN"
| "mul_fl mx x NaN = NaN"
| "mul_fl mx (Fin a) y = inf_times y a"
| "mul_fl mx x (Fin b) = inf_times x b"
| "mul_fl mx PInf y = y"
| "mul_fl mx NInf y = neg_fl y"

text \<open>Division by a positive finite constant (a count, \<open>2\<close>, \<open>1 - p\<close>).\<close>

fun div_fl :: "real \<Rightarrow> fl \<Rightarrow> real \<Rightarrow> fl" where
  "div_fl mx (Fin a) c = overflow mx (a / c)"
| "div_fl mx x c = x"

fun tanh_fl :: "fl \<Rightarrow> fl" where
  "tanh_fl (Fin a) = Fin (tanh a)"
| "tanh_fl PInf = Fin 1"
| "tanh_fl NInf = Fin (- 1)"
| "tanh_fl NaN = NaN"

text \<open>Summation from the left, as a loop \<^verbatim>\<open>acc += x\<close> does it.\<close>

definition sum_fl :: "real \<Rightarrow> fl list \<Rightarrow> fl" where
  "sum_fl mx xs = foldl (add_fl mx) (Fin 0) xs"

text \<open>The closed interval \<open>[-1, 1]\<close>; NaN lies in no interval.\<close>

fun in_unit_interval :: "fl \<Rightarrow> bool" where
  "in_unit_interval (Fin a) = (- 1 \<le> a \<and> a \<le> 1)"
| "in_unit_interval _ = False"

subsection \<open>Errors and tensors\<close>

datatype error =
    ZeroDivisionError
  | IndexError
  | ShapeError
  | ValueError
  | FileExistsError
  | FileNotFoundError
  | External string

datatype 'a result = Ok 'a | Raise error

type_synonym vec = "fl list"
type_synonym mat = "fl list list"
type_synonym addr = nat

text \<open>A parameter tensor is a vector (a bias) or a matrix given by its rows (a weight).\<close>

datatype tensor = Vec vec | Mat mat

text \<open>
  A batch of images of shape \<open>(B, *sample_shape)\<close>: one flat row of entries per
  sample. \<^verbatim>\<open>view\<close> between \<open>(B, D)\<close> and \<open>(B, *shape)\<close> moves no data.
\<close>

record image_batch =
  sample_shape :: "nat list"
  samples :: mat

definition shape_of :: "image_batch \<Rightarrow> nat list" where
  "shape_of x = length (samples x) # sample_shape x"

text \<open>
  The autograd graph behind a tensor, as far as the program can observe it: the
  parameters an operation used and the graphs of its inputs. \<^verbatim>\<open>detach()\<close> and
  freshly created tensors have the graph \<open>Const\<close>.
\<close>

datatype graph = Const | Node "addr list" "graph list"

fun leaves :: "graph \<Rightarrow> addr list" where
  "leaves Const = []"
| "leaves (Node ps gs) = ps @ concat (map leaves gs)"

section \<open>Program state and collaborators\<close>

text \<open>The two global dictionaries of the notebook; their keys are fixed.\<close>

record train_parameters =
  batch_size :: nat
  num_classes :: nat
  img_shape :: "nat list"
  epochs :: nat
  learning_rate :: real

record model_hyperparameters =
  generator_latent_dim :: nat

datatype device = CUDA | CPU

text \<open>A parameter of a module: its data and its \<^verbatim>\<open>.grad\<close>.\<close>

record cell =
  pval :: tensor
  grad :: "tensor option"

record adam_slot =
  step_count :: nat
  exp_avg :: tensor
  exp_avg_sq :: tensor

type_synonym png = "image_batch \<times> nat"

datatype plot =
    CurrentResults png "fl list" "fl list"
  | LossPlot "(string \<times> fl list) list"

text \<open>The places where the program calls a collaborator that may fail.\<close>

datatype site =
    AtDataset
  | AtLoader
  | AtToDevice
  | AtSampling
  | AtConstruct
  | AtForward
  | AtLoss
  | AtBackward
  | AtOptimizer
  | AtFileSystem
  | AtPlotting

text \<open>
  What a run does to the outside, in order: printed lines, image files saved, figures
  shown, and a collaborator raising (\<open>Failed\<close>). \<open>OptimizerStep\<close> (one per call of
  \<^verbatim>\<open>optimizer.step()\<close>, with the optimizer's identity) and
  \<open>BatchLosses d_real d_fake g\<close> (one per batch, the three values of \<open>adv_loss\<close>) are
  observation events: nothing the program computes depends on the trace.
\<close>

datatype event =
    Printed string
  | PrintedLoss fl fl
  | SavedImage string
  | Shown plot
  | OptimizerStep nat
  | BatchLosses fl fl fl
  | Failed site error

record state =
  TRAIN_PARAMETERS :: train_parameters
  MODEL_HYPERPARAMETERS :: model_hyperparameters
  DEVICE :: device
  heap :: "addr \<Rightarrow> cell"
  next_addr :: addr
  training :: "nat \<Rightarrow> bool"
  next_id :: nat
  slots :: "nat \<Rightarrow> addr \<Rightarrow> adam_slot option"
  np_rng :: nat
  torch_rng :: nat
  dirs :: "string list"
  files :: "string \<Rightarrow> png option"
  trace :: "event list"

text \<open>
  The collaborators. \<open>fault\<close> decides, from the call site and the whole state, whether
  a collaborator raises; the streams are the pseudo-random generators of NumPy and
  PyTorch read at a position; \<open>mnist\<close> is the transformed dataset for an image size;
  \<open>autograd\<close> and \<open>adam_rule\<close> are the numerical core of backpropagation and of the
  Adam update, which the notebook delegates; \<open>bce_with_logits\<close> is PyTorch's
  \<^verbatim>\<open>BCEWithLogitsLoss\<close>.
\<close>

record framework =
  fault :: "site \<Rightarrow> state \<Rightarrow> error option"
  cuda_is_available :: bool
  normal_stream :: "nat \<Rightarrow> fl"
  randint_stream :: "nat \<Rightarrow> nat"
  uniform_stream :: "nat \<Rightarrow> real"
  index_stream :: "nat \<Rightarrow> nat"
  init_stream :: "nat \<Rightarrow> fl"
  mnist :: "nat list \<Rightarrow> (vec \<times> int) list"
  autograd :: "state \<Rightarrow> graph \<Rightarrow> addr \<Rightarrow> tensor"
  adam_rule :: "real \<Rightarrow> adam_slot option \<Rightarrow> tensor \<Rightarrow> tensor \<Rightarrow> tensor \<times> adam_slot"
  bce_with_logits :: "mat \<Rightarrow> mat \<Rightarrow> fl result"

subsection \<open>Statements as state transformers\<close>

text \<open>
  A Python statement maps a state to a result and a state. Sequencing is \<open>bind\<close>: an
  exception skips the rest. The notebook has no \<^verbatim>\<open>try\<close>, so there is no handler.
  \<open>collab\<close> wraps a call of a collaborator: the collaborator may raise instead of
  running, which the trace records.
\<close>

type_synonym 'a action = "state \<Rightarrow> 'a result \<times> state"

definition ret :: "'a \<Rightarrow> 'a action" where
  "ret a s = (Ok a, s)"

definition raise :: "error \<Rightarrow> 'a action" where
  "raise e s = (Raise e, s)"

definition lift :: "'a result \<Rightarrow> 'a action" where
  "lift r s = (r, s)"

text \<open>The rest of a sequence, applied to what its first statement did.\<close>

fun continue :: "('a \<Rightarrow> 'b action) \<Rightarrow> 'a result \<times> state \<Rightarrow> 'b result \<times> state" where
  "continue f (Ok a, s) = f a s"
| "continue f (Raise e, s) = (Raise e, s)"

definition bind :: "'a action \<Rightarrow> ('a \<Rightarrow> 'b action) \<Rightarrow> 'b action" where
  "bind m f s = continue f (m s)"

definition collab :: "framework \<Rightarrow> site \<Rightarrow> 'a action \<Rightarrow> 'a action" where
  "collab fw st m s =
     (case fault fw st s of
        Some e \<Rightarrow> (Raise e, s\<lparr>trace := trace s @ [Failed st e]\<rparr>)
      | None \<Rightarrow> m s)"

definition emit :: "event \<Rightarrow> unit action" where
  "emit ev s = (Ok (), s\<lparr>trace := trace s @ [ev]\<rparr>)"

text \<open>\<^verbatim>\<open>for x in xs: acc = body(x, acc)\<close>\<close>

fun for_each :: "('a \<Rightarrow> 'b \<Rightarrow> 'b action) \<Rightarrow> 'a list \<Rightarrow> 'b \<Rightarrow> 'b action" where
  "for_each body [] acc = ret acc"
| "for_each body (x # xs) acc = bind (body x acc) (for_each body xs)"

section \<open>Model definition\<close>

subsection \<open>Layers\<close>

datatype layer = Linear addr addr | LeakyReLU real | Tanh | Dropout real

fun layer_parameters :: "layer \<Rightarrow> addr list" where
  "layer_parameters (Linear w b) = [w, b]"
| "layer_parameters _ = []"

definition dot :: "vec \<Rightarrow> vec \<Rightarrow> fl" where
  "dot w x = sum_fl FLT_MAX (map2 (mul_fl FLT_MAX) w x)"

text \<open>\<^verbatim>\<open>nn.Linear\<close> on one sample; a size mismatch is PyTorch's RuntimeError.\<close>

definition linear_row :: "mat \<Rightarrow> vec \<Rightarrow> vec \<Rightarrow> vec result" where
  "linear_row W b x =
     (if length b = length W \<and> list_all (\<lambda>w. length w = length x) W
      then Ok (map2 (\<lambda>w bi. add_fl FLT_MAX (dot w x) bi) W b)
      else Raise ShapeError)"

fun all_ok :: "'a result list \<Rightarrow> 'a list result" where
  "all_ok [] = Ok []"
| "all_ok (r # rs) =
     (case r of
        Raise e \<Rightarrow> Raise e
      | Ok a \<Rightarrow> (case all_ok rs of Raise e \<Rightarrow> Raise e | Ok as \<Rightarrow> Ok (a # as)))"

definition linear_batch :: "mat \<Rightarrow> vec \<Rightarrow> mat \<Rightarrow> mat result" where
  "linear_batch W b X = all_ok (map (linear_row W b) X)"

text \<open>\<^verbatim>\<open>nn.LeakyReLU(slope)\<close>: \<open>x\<close> when \<open>x \<ge> 0\<close>, else \<open>slope * x\<close>.\<close>

fun leaky_relu :: "real \<Rightarrow> fl \<Rightarrow> fl" where
  "leaky_relu slope (Fin a) = (if 0 \<le> a then Fin a else mul_fl FLT_MAX (Fin a) (Fin slope))"
| "leaky_relu slope PInf = PInf"
| "leaky_relu slope x = mul_fl FLT_MAX x (Fin slope)"

text \<open>
  \<^verbatim>\<open>nn.Dropout(p)\<close> in training mode: an entry is multiplied by zero when its draw
  is below \<open>p\<close> and divided by \<open>1 - p\<close> otherwise; one draw of PyTorch's generator
  per entry.
\<close>

definition dropout_row :: "framework \<Rightarrow> real \<Rightarrow> nat \<Rightarrow> vec \<Rightarrow> vec" where
  "dropout_row fw p pos row =
     map2 (\<lambda>x k. if uniform_stream fw (pos + k) < p then mul_fl FLT_MAX x (Fin 0)
                 else div_fl FLT_MAX x (1 - p))
       row [0..<length row]"

fun dropout_rows :: "framework \<Rightarrow> real \<Rightarrow> nat \<Rightarrow> mat \<Rightarrow> mat" where
  "dropout_rows fw p pos [] = []"
| "dropout_rows fw p pos (r # rs) = dropout_row fw p pos r # dropout_rows fw p (pos + length r) rs"

fun layer_forward :: "framework \<Rightarrow> bool \<Rightarrow> layer \<Rightarrow> mat \<Rightarrow> mat action" where
  "layer_forward fw tr (Linear w b) x s =
     (case (pval (heap s w), pval (heap s b)) of
        (Mat W, Vec bv) \<Rightarrow> (linear_batch W bv x, s)
      | _ \<Rightarrow> (Raise ShapeError, s))"
| "layer_forward fw tr (LeakyReLU slope) x s = (Ok (map (map (leaky_relu slope)) x), s)"
| "layer_forward fw tr Tanh x s = (Ok (map (map tanh_fl) x), s)"
| "layer_forward fw tr (Dropout p) x s =
     (if tr
      then (Ok (dropout_rows fw p (torch_rng s) x),
            s\<lparr>torch_rng := torch_rng s + sum_list (map length x)\<rparr>)
      else (Ok x, s))"

text \<open>\<^verbatim>\<open>nn.Sequential\<close>: the layers in order.\<close>

fun sequential :: "framework \<Rightarrow> bool \<Rightarrow> layer list \<Rightarrow> mat \<Rightarrow> mat action" where
  "sequential fw tr [] x = ret x"
| "sequential fw tr (l # ls) x = bind (layer_forward fw tr l x) (sequential fw tr ls)"

text \<open>\<^verbatim>\<open>nn.Embedding\<close>: row \<open>l\<close> of the table for label \<open>l\<close>; IndexError out of range.\<close>

definition embedding :: "addr \<Rightarrow> int list \<Rightarrow> mat action" where
  "embedding a labels s =
     (case pval (heap s a) of
        Mat E \<Rightarrow>
          (if list_all (\<lambda>l. 0 \<le> l \<and> l < int (length E)) labels
           then (Ok (map (\<lambda>l. E ! nat l) labels), s)
           else (Raise IndexError, s))
      | Vec v \<Rightarrow> (Raise ShapeError, s))"

text \<open>\<^verbatim>\<open>torch.cat((a, b), -1)\<close> of two batches of rows.\<close>

definition cat_last :: "mat \<Rightarrow> mat \<Rightarrow> mat result" where
  "cat_last a b = (if length a = length b then Ok (map2 (@) a b) else Raise ShapeError)"

text \<open>\<^verbatim>\<open>img.view(img.size(0), *shape)\<close>\<close>

definition view_as :: "nat list \<Rightarrow> mat \<Rightarrow> image_batch result" where
  "view_as shp m =
     (if list_all (\<lambda>r. length r = prod_list shp) m
      then Ok \<lparr>sample_shape = shp, samples = m\<rparr>
      else Raise ShapeError)"

text \<open>\<^verbatim>\<open>img.view(img.size(0), -1)\<close>: PyTorch cannot infer \<open>-1\<close> for an empty batch.\<close>

definition view_flat :: "image_batch \<Rightarrow> mat result" where
  "view_flat img = (if samples img = [] then Raise ShapeError else Ok (samples img))"

subsection \<open>Generator and Discriminator\<close>

record generator =
  gen_id :: nat
  label_emb :: addr
  gen_img_shape :: "nat list"
  gen_model :: "layer list"

record discriminator =
  disc_id :: nat
  label_embedding :: addr
  disc_model :: "layer list"

definition gen_parameters :: "generator \<Rightarrow> addr list" where
  "gen_parameters g = label_emb g # concat (map layer_parameters (gen_model g))"

definition disc_parameters :: "discriminator \<Rightarrow> addr list" where
  "disc_parameters d = label_embedding d # concat (map layer_parameters (disc_model d))"

text \<open>
  \<^verbatim>\<open>Generator.forward(noise, labels)\<close>. Both arguments are plain tensors at every
  call of the notebook, so the graph of the result has the generator's parameters as
  its only leaves.
\<close>

definition Generator_forward ::
  "framework \<Rightarrow> generator \<Rightarrow> mat \<Rightarrow> int list \<Rightarrow> (image_batch \<times> graph) action" where
  "Generator_forward fw g noise labels =
     collab fw AtForward
       (bind (embedding (label_emb g) labels) (\<lambda>emb.
        bind (lift (cat_last emb noise)) (\<lambda>gen_input.
        bind (\<lambda>s. sequential fw (training s (gen_id g)) (gen_model g) gen_input s) (\<lambda>img.
        bind (lift (view_as (gen_img_shape g) img)) (\<lambda>img.
        ret (img, Node (gen_parameters g) []))))))"

definition detach :: "'a \<times> graph \<Rightarrow> 'a \<times> graph" where
  "detach x = (fst x, Const)"

text \<open>\<^verbatim>\<open>Discriminator.forward(img, labels)\<close>; \<open>img\<close> comes with its graph.\<close>

definition Discriminator_forward ::
  "framework \<Rightarrow> discriminator \<Rightarrow> image_batch \<times> graph \<Rightarrow> int list \<Rightarrow> (mat \<times> graph) action" where
  "Discriminator_forward fw d img labels =
     collab fw AtForward
       (bind (lift (view_flat (fst img))) (\<lambda>flat.
        bind (embedding (label_embedding d) labels) (\<lambda>emb.
        bind (lift (cat_last flat emb)) (\<lambda>d_in.
        bind (\<lambda>s. sequential fw (training s (disc_id d)) (disc_model d) d_in s) (\<lambda>validity.
        ret (validity, Node (disc_parameters d) [snd img]))))))"

subsection \<open>Constructors\<close>

definition alloc :: "tensor \<Rightarrow> addr action" where
  "alloc t s =
     (Ok (next_addr s),
      s\<lparr>heap := (heap s)(next_addr s := \<lparr>pval = t, grad = None\<rparr>),
        next_addr := Suc (next_addr s)\<rparr>)"

definition init_vec :: "framework \<Rightarrow> nat \<Rightarrow> nat \<Rightarrow> vec" where
  "init_vec fw n pos = map (\<lambda>j. init_stream fw (pos + j)) [0..<n]"

definition init_mat :: "framework \<Rightarrow> nat \<Rightarrow> nat \<Rightarrow> nat \<Rightarrow> mat" where
  "init_mat fw rows cols pos = map (\<lambda>i. init_vec fw cols (pos + i * cols)) [0..<rows]"

definition new_mat :: "framework \<Rightarrow> nat \<Rightarrow> nat \<Rightarrow> addr action" where
  "new_mat fw rows cols s =
     alloc (Mat (init_mat fw rows cols (torch_rng s))) (s\<lparr>torch_rng := torch_rng s + rows * cols\<rparr>)"

definition new_vec :: "framework \<Rightarrow> nat \<Rightarrow> addr action" where
  "new_vec fw n s = alloc (Vec (init_vec fw n (torch_rng s))) (s\<lparr>torch_rng := torch_rng s + n\<rparr>)"

definition nn_Embedding :: "framework \<Rightarrow> nat \<Rightarrow> nat \<Rightarrow> addr action" where
  "nn_Embedding fw num_embeddings embedding_dim = new_mat fw num_embeddings embedding_dim"

definition nn_Linear :: "framework \<Rightarrow> nat \<Rightarrow> nat \<Rightarrow> layer action" where
  "nn_Linear fw in_feat out_feat =
     bind (new_mat fw out_feat in_feat) (\<lambda>w.
     bind (new_vec fw out_feat) (\<lambda>b.
     ret (Linear w b)))"

text \<open>
  \<^verbatim>\<open>block(in_feat, out_feat, normalize=False)\<close>: every call of the notebook leaves
  \<open>normalize\<close> false, so the \<^verbatim>\<open>BatchNorm1d\<close> branch is never taken and is left out.
\<close>

definition block :: "framework \<Rightarrow> nat \<Rightarrow> nat \<Rightarrow> layer list action" where
  "block fw in_feat out_feat =
     bind (nn_Linear fw in_feat out_feat) (\<lambda>l. ret [l, LeakyReLU 0.2])"

text \<open>A new module gets an identity and starts in training mode.\<close>

definition new_module :: "nat action" where
  "new_module s =
     (Ok (next_id s), s\<lparr>training := (training s)(next_id s := True), next_id := Suc (next_id s)\<rparr>)"

text \<open>
  \<^verbatim>\<open>int(np.prod(img_shape))\<close>: NumPy multiplies in 64-bit integers, so the product
  wraps around; a negative size makes the layer's constructor raise.
\<close>

definition np_prod :: "nat list \<Rightarrow> int" where
  "np_prod shp =
     (let p = int (prod_list shp) mod 2 ^ 64 in if p < 2 ^ 63 then p else p - 2 ^ 64)"

definition layer_size :: "int \<Rightarrow> nat action" where
  "layer_size n = (if n < 0 then raise ValueError else ret (nat n))"

definition Generator_init :: "framework \<Rightarrow> nat \<Rightarrow> nat list \<Rightarrow> nat \<Rightarrow> generator action" where
  "Generator_init fw n_classes shp latent_dim =
     collab fw AtConstruct
       (bind new_module (\<lambda>i.
        bind (nn_Embedding fw n_classes n_classes) (\<lambda>emb.
        bind (block fw (latent_dim + n_classes) 256) (\<lambda>b1.
        bind (block fw 256 512) (\<lambda>b2.
        bind (block fw 512 1024) (\<lambda>b3.
        bind (layer_size (np_prod shp)) (\<lambda>out_feat.
        bind (nn_Linear fw 1024 out_feat) (\<lambda>l4.
        ret \<lparr>gen_id = i, label_emb = emb, gen_img_shape = shp,
             gen_model = b1 @ b2 @ b3 @ [l4, Tanh]\<rparr>))))))))"

definition Discriminator_init :: "framework \<Rightarrow> nat \<Rightarrow> nat list \<Rightarrow> discriminator action" where
  "Discriminator_init fw n_classes shp =
     collab fw AtConstruct
       (bind new_module (\<lambda>i.
        bind (nn_Embedding fw n_classes n_classes) (\<lambda>emb.
        bind (layer_size (int n_classes + np_prod shp)) (\<lambda>in_feat.
        bind (nn_Linear fw in_feat 1024) (\<lambda>l1.
        bind (nn_Linear fw 1024 512) (\<lambda>l2.
        bind (nn_Linear fw 512 256) (\<lambda>l3.
        bind (nn_Linear fw 256 1) (\<lambda>l4.
        ret \<lparr>disc_id = i, label_embedding = emb,
             disc_model = [l1, LeakyReLU 0.2, Dropout 0.3, l2, LeakyReLU 0.2, Dropout 0.3,
                           l3, LeakyReLU 0.2, Dropout 0.3, l4]\<rparr>))))))))"

subsection \<open>Optimizers and automatic differentiation\<close>

record optimizer =
  opt_id :: nat
  opt_params :: "addr list"
  opt_lr :: real

text \<open>\<^verbatim>\<open>torch.optim.Adam(params, lr=lr)\<close>: it keeps references to the parameters given.\<close>

definition Adam :: "addr list \<Rightarrow> real \<Rightarrow> optimizer action" where
  "Adam params rate s =
     (if params = [] \<or> rate < 0 then (Raise ValueError, s)
      else (Ok \<lparr>opt_id = next_id s, opt_params = params, opt_lr = rate\<rparr>,
            s\<lparr>next_id := Suc (next_id s)\<rparr>))"

text \<open>\<^verbatim>\<open>.to(device)\<close> moves data and keeps the object.\<close>

definition to_device :: "framework \<Rightarrow> device \<Rightarrow> 'a \<Rightarrow> 'a action" where
  "to_device fw dev x = collab fw AtToDevice (ret x)"

definition get_generator_model ::
  "framework \<Rightarrow> nat \<Rightarrow> nat list \<Rightarrow> nat \<Rightarrow> real \<Rightarrow> device \<Rightarrow> (generator \<times> optimizer) action" where
  "get_generator_model fw n_classes shp latent_dim rate dev =
     bind (Generator_init fw n_classes shp latent_dim) (\<lambda>generator.
     bind (Adam (gen_parameters generator) rate) (\<lambda>optimizer.
     bind (to_device fw dev generator) (\<lambda>generator.
     ret (generator, optimizer))))"

definition get_discriminator_model ::
  "framework \<Rightarrow> nat \<Rightarrow> nat list \<Rightarrow> real \<Rightarrow> device \<Rightarrow> (discriminator \<times> optimizer) action" where
  "get_discriminator_model fw n_classes shp rate dev =
     bind (Discriminator_init fw n_classes shp) (\<lambda>discriminator.
     bind (Adam (disc_parameters discriminator) rate) (\<lambda>optimizer.
     bind (to_device fw dev discriminator) (\<lambda>discriminator.
     ret (discriminator, optimizer))))"

text \<open>
  \<^verbatim>\<open>for p in params: ...\<close> over parameter cells: the loop the optimizer and autograd
  run over the parameters they hold.
\<close>

definition update_cells ::
  "(addr \<Rightarrow> cell \<Rightarrow> cell) \<Rightarrow> addr list \<Rightarrow> (addr \<Rightarrow> cell) \<Rightarrow> addr \<Rightarrow> cell" where
  "update_cells f ps h = fold (\<lambda>a h. h(a := f a (h a))) ps h"

text \<open>\<^verbatim>\<open>optimizer.zero_grad()\<close> clears the gradients of the optimizer's parameters.\<close>

definition zero_grad :: "optimizer \<Rightarrow> unit action" where
  "zero_grad opt s =
     (Ok (), s\<lparr>heap := update_cells (\<lambda>a c. c\<lparr>grad := None\<rparr>) (opt_params opt) (heap s)\<rparr>)"

fun tensor_add :: "tensor \<Rightarrow> tensor \<Rightarrow> tensor" where
  "tensor_add (Vec a) (Vec b) = Vec (map2 (add_fl FLT_MAX) a b)"
| "tensor_add (Mat a) (Mat b) = Mat (map2 (map2 (add_fl FLT_MAX)) a b)"
| "tensor_add a b = a"

definition accumulate :: "cell \<Rightarrow> tensor \<Rightarrow> cell" where
  "accumulate c g = c\<lparr>grad := Some (case grad c of None \<Rightarrow> g | Some g0 \<Rightarrow> tensor_add g0 g)\<rparr>"

text \<open>
  \<^verbatim>\<open>loss.backward()\<close> adds a gradient to \<^verbatim>\<open>.grad\<close> of every leaf of the loss's
  graph, once per leaf, and touches nothing else.
\<close>

definition accumulate_grads :: "framework \<Rightarrow> graph \<Rightarrow> unit action" where
  "accumulate_grads fw gr s =
     (Ok (),
      s\<lparr>heap := update_cells (\<lambda>a c. accumulate c (autograd fw s gr a)) (remdups (leaves gr)) (heap s)\<rparr>)"

definition backward :: "framework \<Rightarrow> fl \<times> graph \<Rightarrow> unit action" where
  "backward fw loss = collab fw AtBackward (accumulate_grads fw (snd loss))"

text \<open>
  \<^verbatim>\<open>optimizer.step()\<close> updates the data of each of the optimizer's parameters that
  has a gradient, and the optimizer's own state for it.
\<close>

definition adam_param ::
  "framework \<Rightarrow> real \<Rightarrow> addr \<Rightarrow> (addr \<Rightarrow> cell) \<times> (addr \<Rightarrow> adam_slot option) \<Rightarrow>
   (addr \<Rightarrow> cell) \<times> (addr \<Rightarrow> adam_slot option)" where
  "adam_param fw rate a hs =
     (case grad (fst hs a) of
        None \<Rightarrow> hs
      | Some g \<Rightarrow>
          ((fst hs)(a := (fst hs a)\<lparr>pval := fst (adam_rule fw rate (snd hs a) (pval (fst hs a)) g)\<rparr>),
           (snd hs)(a \<mapsto> snd (adam_rule fw rate (snd hs a) (pval (fst hs a)) g))))"

definition adam_step :: "framework \<Rightarrow> optimizer \<Rightarrow> unit action" where
  "adam_step fw opt s =
     (Ok (),
      s\<lparr>heap := fst (fold (adam_param fw (opt_lr opt)) (opt_params opt)
                         (heap s, slots s (opt_id opt))),
        slots := (slots s)(opt_id opt :=
                   snd (fold (adam_param fw (opt_lr opt)) (opt_params opt)
                          (heap s, slots s (opt_id opt)))),
        trace := trace s @ [OptimizerStep (opt_id opt)]\<rparr>)"

definition step :: "framework \<Rightarrow> optimizer \<Rightarrow> unit action" where
  "step fw opt = collab fw AtOptimizer (adam_step fw opt)"

subsection \<open>Adversarial losses\<close>

definition same_shape :: "mat \<Rightarrow> mat \<Rightarrow> bool" where
  "same_shape a b = (length a = length b \<and> list_all2 (\<lambda>r q. length r = length q) a b)"

text \<open>The mean of the entries of a tensor; NaN for an empty one.\<close>

definition mean :: "fl list \<Rightarrow> fl" where
  "mean xs = (if xs = [] then NaN else div_fl FLT_MAX (sum_fl FLT_MAX xs) (real (length xs)))"

text \<open>
  \<^verbatim>\<open>torch.nn.MSELoss()\<close>, the loss of the second run: the mean of the squared
  differences, in single precision.
\<close>

definition MSELoss :: "mat \<Rightarrow> mat \<Rightarrow> fl result" where
  "MSELoss x y =
     (if same_shape x y
      then Ok (mean (concat (map2 (map2 (\<lambda>a t. mul_fl FLT_MAX (sub_fl FLT_MAX a t)
                                               (sub_fl FLT_MAX a t))) x y)))
      else Raise ShapeError)"

text \<open>
  \<^verbatim>\<open>get_adversarial_loss()\<close> returns \<^verbatim>\<open>torch.nn.BCEWithLogitsLoss()\<close>, which is the
  framework's.
\<close>

definition get_adversarial_loss :: "framework \<Rightarrow> mat \<Rightarrow> mat \<Rightarrow> fl result" where
  "get_adversarial_loss fw = bce_with_logits fw"

text \<open>\<^verbatim>\<open>adv_loss(validity, target)\<close>: the target is a plain tensor.\<close>

definition apply_loss ::
  "framework \<Rightarrow> (mat \<Rightarrow> mat \<Rightarrow> fl result) \<Rightarrow> mat \<times> graph \<Rightarrow> mat \<Rightarrow> (fl \<times> graph) action" where
  "apply_loss fw adv_loss validity target =
     collab fw AtLoss
       (bind (lift (adv_loss (fst validity) target)) (\<lambda>v. ret (v, Node [] [snd validity])))"

section \<open>Data loading\<close>

record dataloader =
  dataset :: "(vec \<times> int) list"
  dl_sample_shape :: "nat list"
  dl_batch_size :: nat

text \<open>\<^verbatim>\<open>len(dataloader)\<close> with \<^verbatim>\<open>drop_last=False\<close>.\<close>

definition len_dataloader :: "dataloader \<Rightarrow> nat" where
  "len_dataloader dl = (length (dataset dl) + dl_batch_size dl - 1) div dl_batch_size dl"

text \<open>\<^verbatim>\<open>shuffle=True\<close>: a permutation drawn from PyTorch's generator.\<close>

primrec shuffle :: "(nat \<Rightarrow> nat) \<Rightarrow> nat \<Rightarrow> nat \<Rightarrow> 'a list \<Rightarrow> 'a list" where
  "shuffle f pos 0 xs = []"
| "shuffle f pos (Suc n) xs =
     (let i = f pos mod Suc n
      in xs ! i # shuffle f (Suc pos) n (take i xs @ drop (Suc i) xs))"

function chop :: "nat \<Rightarrow> 'a list \<Rightarrow> 'a list list" where
  "chop n xs = (if n = 0 \<or> xs = [] then [] else take n xs # chop n (drop n xs))"
  by pat_completeness auto
termination
  by (relation "measure (\<lambda>(n, xs). length xs)") auto

declare chop.simps [simp del]

definition collate :: "nat list \<Rightarrow> (vec \<times> int) list \<Rightarrow> image_batch \<times> int list" where
  "collate shp chunk = (\<lparr>sample_shape = shp, samples = map fst chunk\<rparr>, map snd chunk)"

text \<open>One pass \<^verbatim>\<open>for x, y in dataloader\<close>: the batches of one epoch.\<close>

definition iterate :: "framework \<Rightarrow> dataloader \<Rightarrow> (image_batch \<times> int list) list action" where
  "iterate fw dl =
     collab fw AtLoader
       (\<lambda>s. (Ok (map (collate (dl_sample_shape dl))
                  (chop (dl_batch_size dl)
                     (shuffle (index_stream fw) (torch_rng s) (length (dataset dl)) (dataset dl)))),
             s\<lparr>torch_rng := torch_rng s + length (dataset dl)\<rparr>))"

definition get_dataloader :: "framework \<Rightarrow> nat \<Rightarrow> nat list \<Rightarrow> dataloader action" where
  "get_dataloader fw bsize shp =
     (let img_size = drop 1 shp in
      bind (collab fw AtDataset (ret (mnist fw img_size))) (\<lambda>ds.
      if bsize = 0 then raise ValueError
      else ret \<lparr>dataset = ds, dl_sample_shape = 1 # img_size, dl_batch_size = bsize\<rparr>))"

section \<open>Model training\<close>

subsection \<open>Sampling\<close>

text \<open>\<^verbatim>\<open>np.random.normal(0, 1, (rows, cols))\<close>\<close>

definition np_random_normal :: "framework \<Rightarrow> nat \<Rightarrow> nat \<Rightarrow> mat action" where
  "np_random_normal fw rows cols =
     collab fw AtSampling
       (\<lambda>s. (Ok (map (\<lambda>i. map (\<lambda>j. normal_stream fw (np_rng s + i * cols + j)) [0..<cols]) [0..<rows]),
             s\<lparr>np_rng := np_rng s + rows * cols\<rparr>))"

text \<open>\<^verbatim>\<open>np.random.randint(low, high, size)\<close>: ValueError when \<open>low >= high\<close>.\<close>

definition np_random_randint :: "framework \<Rightarrow> nat \<Rightarrow> nat \<Rightarrow> nat \<Rightarrow> int list action" where
  "np_random_randint fw low high n =
     collab fw AtSampling
       (\<lambda>s. if high \<le> low then (Raise ValueError, s)
            else (Ok (map (\<lambda>i. int (low + randint_stream fw (np_rng s + i) mod (high - low))) [0..<n]),
                  s\<lparr>np_rng := np_rng s + n\<rparr>))"

subsection \<open>Saving and plotting\<close>

definition digit_char :: "nat \<Rightarrow> char" where
  "digit_char d = char_of (48 + d)"

text \<open>\<^verbatim>\<open>"%d" % n\<close> for a natural number.\<close>

fun show_nat :: "nat \<Rightarrow> string" where
  "show_nat n = (if n < 10 then [digit_char n] else show_nat (n div 10) @ [digit_char (n mod 10)])"

declare show_nat.simps [simp del]

definition png_path :: "nat \<Rightarrow> string" where
  "png_path epoch_n = ''results/'' @ show_nat epoch_n @ ''.png''"

text \<open>\<^verbatim>\<open>os.makedirs(name, exist_ok=True)\<close>\<close>

definition makedirs :: "framework \<Rightarrow> string \<Rightarrow> unit action" where
  "makedirs fw name =
     collab fw AtFileSystem
       (\<lambda>s. if name \<in> set (dirs s) then (Ok (), s)
            else if files s name \<noteq> None then (Raise FileExistsError, s)
            else (Ok (), s\<lparr>dirs := name # dirs s\<rparr>))"

definition parent_dir :: "string \<Rightarrow> string" where
  "parent_dir path = takeWhile (\<lambda>c. c \<noteq> CHR ''/'') path"

text \<open>\<^verbatim>\<open>save_image(tensor, path, nrow=nrow, normalize=True)\<close>\<close>

definition save_image :: "framework \<Rightarrow> image_batch \<Rightarrow> string \<Rightarrow> nat \<Rightarrow> unit action" where
  "save_image fw img path nrow =
     collab fw AtFileSystem
       (\<lambda>s. if parent_dir path \<in> set (dirs s)
            then (Ok (), s\<lparr>files := (files s)(path \<mapsto> (img, nrow)),
                           trace := trace s @ [SavedImage path]\<rparr>)
            else (Raise FileNotFoundError, s))"

definition plt_imread :: "framework \<Rightarrow> string \<Rightarrow> png action" where
  "plt_imread fw path =
     collab fw AtFileSystem
       (\<lambda>s. case files s path of None \<Rightarrow> (Raise FileNotFoundError, s) | Some p \<Rightarrow> (Ok p, s))"

text \<open>\<^verbatim>\<open>[num for _ in range(n_row) for num in range(n_row)]\<close>\<close>

definition grid_labels :: "nat \<Rightarrow> int list" where
  "grid_labels n_row = concat (map (\<lambda>_. map int [0..<n_row]) [0..<n_row])"

definition save_reconstruction ::
  "framework \<Rightarrow> generator \<Rightarrow> nat \<Rightarrow> nat \<Rightarrow> nat \<Rightarrow> device \<Rightarrow> png action" where
  "save_reconstruction fw generator latent_dim n_row epoch_n dev =
     bind (makedirs fw ''results'') (\<lambda>_.
     bind (np_random_normal fw (n_row ^ 2) latent_dim) (\<lambda>z.
     bind (to_device fw dev z) (\<lambda>z.
     bind (to_device fw dev (grid_labels n_row)) (\<lambda>labels.
     bind (Generator_forward fw generator z labels) (\<lambda>gen_imgs.
     bind (save_image fw (fst gen_imgs) (png_path epoch_n) n_row) (\<lambda>_.
     plt_imread fw (png_path epoch_n)))))))"

record model_loss =
  loss_generator :: "fl list"
  loss_discriminator :: "fl list"

definition init_figure :: "framework \<Rightarrow> unit action" where
  "init_figure fw = collab fw AtPlotting (ret ())"

text \<open>
  \<^verbatim>\<open>plot_current_results\<close> plots both loss lists against
  \<^verbatim>\<open>range(1, len(model_loss['generator'])+1)\<close>; matplotlib raises ValueError when the
  lengths differ.
\<close>

definition plot_current_results :: "framework \<Rightarrow> png \<Rightarrow> model_loss \<Rightarrow> unit \<Rightarrow> unit action" where
  "plot_current_results fw im ml fig_axes =
     collab fw AtPlotting
       (if length (loss_discriminator ml) = length (loss_generator ml)
        then emit (Shown (CurrentResults im (loss_generator ml) (loss_discriminator ml)))
        else raise ValueError)"

definition plot_loss :: "framework \<Rightarrow> model_loss \<Rightarrow> unit action" where
  "plot_loss fw loss_dict =
     collab fw AtPlotting
       (emit (Shown (LossPlot [(''generator'', loss_generator loss_dict),
                               (''discriminator'', loss_discriminator loss_dict)])))"

subsection \<open>The training loop\<close>

definition module_eval :: "nat \<Rightarrow> unit action" where
  "module_eval i s = (Ok (), s\<lparr>training := (training s)(i := False)\<rparr>)"

definition module_train :: "nat \<Rightarrow> unit action" where
  "module_train i s = (Ok (), s\<lparr>training := (training s)(i := True)\<rparr>)"

text \<open>Python's \<^verbatim>\<open>x / n\<close> and \<^verbatim>\<open>x + y\<close> on floats.\<close>

definition py_div :: "fl \<Rightarrow> nat \<Rightarrow> fl action" where
  "py_div x n = (if n = 0 then raise ZeroDivisionError else ret (div_fl DBL_MAX x (real n)))"

definition py_add :: "fl \<Rightarrow> fl \<Rightarrow> fl" where
  "py_add x y = add_fl DBL_MAX x y"

text \<open>
  The part of \<^verbatim>\<open>## Train discriminator\<close> before \<^verbatim>\<open>d_loss\<close> is formed: from
  \<^verbatim>\<open>optimizer_D.zero_grad()\<close> to the two losses. The fake batch goes through
  \<^verbatim>\<open>detach()\<close>.
\<close>

definition discriminator_losses ::
  "framework \<Rightarrow> generator \<Rightarrow> discriminator \<Rightarrow> optimizer \<Rightarrow> (mat \<Rightarrow> mat \<Rightarrow> fl result) \<Rightarrow>
   nat \<Rightarrow> nat \<Rightarrow> device \<Rightarrow> image_batch \<Rightarrow> int list \<Rightarrow> mat \<Rightarrow> mat \<Rightarrow>
   ((fl \<times> graph) \<times> (fl \<times> graph)) action" where
  "discriminator_losses fw generator discriminator optimizer_D adv_loss latent_dim n_classes dev
       x y valid fake =
     bind (zero_grad optimizer_D) (\<lambda>_.
     bind (np_random_normal fw (length (samples x)) latent_dim) (\<lambda>z.
     bind (to_device fw dev z) (\<lambda>z.
     bind (np_random_randint fw 0 n_classes (length (samples x))) (\<lambda>gen_y.
     bind (to_device fw dev gen_y) (\<lambda>gen_y.
     bind (Generator_forward fw generator z gen_y) (\<lambda>gen_x.
     bind (Discriminator_forward fw discriminator (detach gen_x) gen_y) (\<lambda>validity_fake.
     bind (Discriminator_forward fw discriminator (x, Const) y) (\<lambda>validity_real.
     bind (apply_loss fw adv_loss validity_real valid) (\<lambda>d_real_loss.
     bind (apply_loss fw adv_loss validity_fake fake) (\<lambda>d_fake_loss.
     ret (d_real_loss, d_fake_loss)))))))))))"

text \<open>\<^verbatim>\<open>d_loss = (d_real_loss + d_fake_loss) / 2\<close>\<close>

definition half_sum :: "fl \<times> graph \<Rightarrow> fl \<times> graph \<Rightarrow> fl \<times> graph" where
  "half_sum a b = (div_fl FLT_MAX (add_fl FLT_MAX (fst a) (fst b)) 2, Node [] [snd a, snd b])"

text \<open>
  The part of \<^verbatim>\<open>## Train generator\<close> before \<^verbatim>\<open>g_loss.backward()\<close>: the fake batch
  reaches the discriminator with its graph.
\<close>

definition generator_loss ::
  "framework \<Rightarrow> generator \<Rightarrow> discriminator \<Rightarrow> optimizer \<Rightarrow> (mat \<Rightarrow> mat \<Rightarrow> fl result) \<Rightarrow>
   nat \<Rightarrow> nat \<Rightarrow> device \<Rightarrow> nat \<Rightarrow> mat \<Rightarrow> (fl \<times> graph) action" where
  "generator_loss fw generator discriminator optimizer_G adv_loss latent_dim n_classes dev
       bsize valid =
     bind (zero_grad optimizer_G) (\<lambda>_.
     bind (np_random_normal fw bsize latent_dim) (\<lambda>z.
     bind (to_device fw dev z) (\<lambda>z.
     bind (np_random_randint fw 0 n_classes bsize) (\<lambda>gen_y.
     bind (to_device fw dev gen_y) (\<lambda>gen_y.
     bind (Generator_forward fw generator z gen_y) (\<lambda>gen_x.
     bind (Discriminator_forward fw discriminator gen_x gen_y) (\<lambda>validity.
     apply_loss fw adv_loss validity valid)))))))"

text \<open>The body of \<^verbatim>\<open>for x, y in dataloader\<close>, with the two running sums.\<close>

definition train_batch ::
  "framework \<Rightarrow> generator \<Rightarrow> optimizer \<Rightarrow> discriminator \<Rightarrow> optimizer \<Rightarrow>
   (mat \<Rightarrow> mat \<Rightarrow> fl result) \<Rightarrow> nat \<Rightarrow> nat \<Rightarrow> device \<Rightarrow>
   image_batch \<times> int list \<Rightarrow> fl \<times> fl \<Rightarrow> (fl \<times> fl) action" where
  "train_batch fw generator optimizer_G discriminator optimizer_D adv_loss latent_dim n_classes dev
       batch running =
     bind (to_device fw dev (fst batch)) (\<lambda>x.
     bind (to_device fw dev (snd batch)) (\<lambda>y.
     bind (to_device fw dev (replicate (length (samples x)) [Fin 1])) (\<lambda>valid.
     bind (to_device fw dev (replicate (length (samples x)) [Fin 0])) (\<lambda>fake.
     bind (discriminator_losses fw generator discriminator optimizer_D adv_loss latent_dim
             n_classes dev x y valid fake) (\<lambda>d_losses.
     bind (backward fw (half_sum (fst d_losses) (snd d_losses))) (\<lambda>_.
     bind (step fw optimizer_D) (\<lambda>_.
     bind (generator_loss fw generator discriminator optimizer_G adv_loss latent_dim
             n_classes dev (length (samples x)) valid) (\<lambda>g_loss.
     bind (backward fw g_loss) (\<lambda>_.
     bind (step fw optimizer_G) (\<lambda>_.
     bind (emit (BatchLosses (fst (fst d_losses)) (fst (snd d_losses)) (fst g_loss))) (\<lambda>_.
     ret (py_add (fst running) (fst g_loss),
          py_add (snd running) (fst (half_sum (fst d_losses) (snd d_losses)))))))))))))))"

text \<open>The body of \<^verbatim>\<open>for epoch in range(epochs)\<close>.\<close>

definition run_epoch ::
  "framework \<Rightarrow> nat \<Rightarrow> dataloader \<Rightarrow> generator \<Rightarrow> optimizer \<Rightarrow> discriminator \<Rightarrow> optimizer \<Rightarrow>
   (mat \<Rightarrow> mat \<Rightarrow> fl result) \<Rightarrow> nat \<Rightarrow> nat \<Rightarrow> device \<Rightarrow>
   nat \<Rightarrow> model_loss \<Rightarrow> model_loss action" where
  "run_epoch fw n_epochs dl generator optimizer_G discriminator optimizer_D adv_loss latent_dim
       n_classes dev epoch ml =
     bind (emit (Printed (''Epoch '' @ show_nat epoch @ ''/'' @ show_nat (n_epochs - 1)))) (\<lambda>_.
     bind (emit (Printed (replicate 10 CHR ''-''))) (\<lambda>_.
     bind (iterate fw dl) (\<lambda>batches.
     bind (for_each (train_batch fw generator optimizer_G discriminator optimizer_D adv_loss
                       latent_dim n_classes dev) batches (Fin 0, Fin 0)) (\<lambda>running.
     bind (py_div (fst running) (len_dataloader dl)) (\<lambda>epoch_g_loss.
     bind (py_div (snd running) (len_dataloader dl)) (\<lambda>epoch_d_loss.
     bind (emit (PrintedLoss epoch_g_loss epoch_d_loss)) (\<lambda>_.
     let ml' = \<lparr>loss_generator = loss_generator ml @ [epoch_g_loss],
                loss_discriminator = loss_discriminator ml @ [epoch_d_loss]\<rparr> in
     if epoch mod 1 = 0
     then bind (module_eval (gen_id generator)) (\<lambda>_.
          bind (save_reconstruction fw generator latent_dim n_classes epoch dev) (\<lambda>im.
          bind (init_figure fw) (\<lambda>fig_axes.
          bind (plot_current_results fw im ml' fig_axes) (\<lambda>_.
          bind (module_train (gen_id generator)) (\<lambda>_.
          ret ml')))))
     else ret ml')))))))"

text \<open>\<^verbatim>\<open>model_loss\<close> is a local of \<open>train_model\<close>; the function returns nothing.\<close>

definition train_model ::
  "framework \<Rightarrow> nat \<Rightarrow> dataloader \<Rightarrow> generator \<Rightarrow> optimizer \<Rightarrow> discriminator \<Rightarrow> optimizer \<Rightarrow>
   (mat \<Rightarrow> mat \<Rightarrow> fl result) \<Rightarrow> nat \<Rightarrow> nat \<Rightarrow> device \<Rightarrow> unit action" where
  "train_model fw n_epochs dl generator optimizer_G discriminator optimizer_D adv_loss latent_dim
       n_classes dev =
     bind (for_each (run_epoch fw n_epochs dl generator optimizer_G discriminator optimizer_D
                       adv_loss latent_dim n_classes dev)
             [0..<n_epochs] \<lparr>loss_generator = [], loss_discriminator = []\<rparr>) (\<lambda>ml.
     plot_loss fw ml)"

section \<open>The notebook\<close>

text \<open>Cell 3 seeds PyTorch's generator; cell 5 defines the configuration.\<close>

definition manual_seed :: "nat \<Rightarrow> unit action" where
  "manual_seed n s = (Ok (), s\<lparr>torch_rng := n\<rparr>)"

definition define_globals :: "framework \<Rightarrow> unit action" where
  "define_globals fw s =
     (Ok (),
      s\<lparr>TRAIN_PARAMETERS := \<lparr>batch_size = 128, num_classes = 10, img_shape = [1, 28, 28],
                               epochs = 200, learning_rate = 0.0002\<rparr>,
        MODEL_HYPERPARAMETERS := \<lparr>generator_latent_dim = 100\<rparr>,
        DEVICE := (if cuda_is_available fw then CUDA else CPU)\<rparr>)"

text \<open>Cells 8 to 29, which only read the configuration through the state.\<close>

definition after_globals :: "framework \<Rightarrow> unit action" where
  "after_globals fw =
     bind (\<lambda>s. get_dataloader fw (batch_size (TRAIN_PARAMETERS s)) (img_shape (TRAIN_PARAMETERS s)) s)
       (\<lambda>dl.
     bind (\<lambda>s. get_generator_model fw (num_classes (TRAIN_PARAMETERS s))
                 (img_shape (TRAIN_PARAMETERS s))
                 (generator_latent_dim (MODEL_HYPERPARAMETERS s))
                 (learning_rate (TRAIN_PARAMETERS s)) (DEVICE s) s) (\<lambda>gen.
     bind (\<lambda>s. get_discriminator_model fw (num_classes (TRAIN_PARAMETERS s))
                 (img_shape (TRAIN_PARAMETERS s))
                 (learning_rate (TRAIN_PARAMETERS s)) (DEVICE s) s) (\<lambda>dis.
     bind (\<lambda>s. train_model fw (epochs (TRAIN_PARAMETERS s)) dl (fst gen) (snd gen) (fst dis) (snd dis)
                 (get_adversarial_loss fw)
                 (generator_latent_dim (MODEL_HYPERPARAMETERS s))
                 (num_classes (TRAIN_PARAMETERS s)) (DEVICE s) s) (\<lambda>_.
     (\<lambda>s. train_model fw (epochs (TRAIN_PARAMETERS s)) dl (fst gen) (snd gen) (fst dis) (snd dis)
                 MSELoss
                 (generator_latent_dim (MODEL_HYPERPARAMETERS s))
                 (num_classes (TRAIN_PARAMETERS s)) (DEVICE s) s)))))"

definition notebook :: "framework \<Rightarrow> unit action" where
  "notebook fw =
     bind (manual_seed 0) (\<lambda>_.
     bind (define_globals fw) (\<lambda>_.
     after_globals fw))"

section \<open>Observations\<close>

text \<open>The configuration, and the data of all parameters, in a state.\<close>

definition config :: "state \<Rightarrow> train_parameters \<times> model_hyperparameters" where
  "config s = (TRAIN_PARAMETERS s, MODEL_HYPERPARAMETERS s)"

definition param_values :: "state \<Rightarrow> addr \<Rightarrow> tensor" where
  "param_values s = (\<lambda>a. pval (heap s a))"

text \<open>The optimizer steps, the image files saved, the batch losses and the
  collaborator failures of a trace, each in order.\<close>

definition opt_steps :: "event list \<Rightarrow> nat list" where
  "opt_steps evs = concat (map (\<lambda>ev. case ev of OptimizerStep i \<Rightarrow> [i] | _ \<Rightarrow> []) evs)"

definition saved_images :: "event list \<Rightarrow> string list" where
  "saved_images evs = concat (map (\<lambda>ev. case ev of SavedImage p \<Rightarrow> [p] | _ \<Rightarrow> []) evs)"

definition batch_losses :: "event list \<Rightarrow> (fl \<times> fl \<times> fl) list" where
  "batch_losses evs =
     concat (map (\<lambda>ev. case ev of BatchLosses dr df g \<Rightarrow> [(dr, df, g)] | _ \<Rightarrow> []) evs)"

definition failures :: "event list \<Rightarrow> (site \<times> error) list" where
  "failures evs = concat (map (\<lambda>ev. case ev of Failed st e \<Rightarrow> [(st, e)] | _ \<Rightarrow> []) evs)"

text \<open>
  A statement is fail-stop when, started where no collaborator has failed, it ends
  either with no collaborator failure at all, or with exactly one, which is the last
  event of the trace and the exception the statement itself raises.
\<close>

definition fail_stop :: "'a action \<Rightarrow> bool" where
  "fail_stop m =
     (\<forall>s. failures (trace s) = [] \<longrightarrow>
        (case m s of
           (Ok a, s') \<Rightarrow> failures (trace s') = []
         | (Raise e, s') \<Rightarrow>
             failures (trace s') = [] \<or>
             (\<exists>st t. trace s' = t @ [Failed st e] \<and> failures t = [])))"

text \<open>
  Two ways to say what a statement leaves alone: \<open>frame F m\<close>, when \<open>m\<close> never changes
  the observation \<open>F\<close> of the state, whether it returns or raises; and \<open>quiet m\<close>, when
  a run of \<open>m\<close> that returns has added nothing to the trace.
\<close>

definition frame :: "(state \<Rightarrow> 'b) \<Rightarrow> 'a action \<Rightarrow> bool" where
  "frame F m = (\<forall>s. F (snd (m s)) = F s)"

definition quiet :: "'a action \<Rightarrow> bool" where
  "quiet m = (\<forall>s a s'. m s = (Ok a, s') \<longrightarrow> trace s' = trace s)"

named_theorems frame_intros
named_theorems quiet_intros
named_theorems fail_stop_intros

text \<open>
  The sizes of a stack of layers chain from an input width to an output width, in a
  given state of the parameters.
\<close>

fun layers_fit :: "state \<Rightarrow> nat \<Rightarrow> layer list \<Rightarrow> nat option" where
  "layers_fit s d [] = Some d"
| "layers_fit s d (Linear w b # ls) =
     (case (pval (heap s w), pval (heap s b)) of
        (Mat W, Vec bv) \<Rightarrow>
          (if length bv = length W \<and> list_all (\<lambda>r. length r = d) W
           then layers_fit s (length W) ls else None)
      | _ \<Rightarrow> None)"
| "layers_fit s d (l # ls) = layers_fit s d ls"

definition embedding_table :: "nat \<Rightarrow> tensor \<Rightarrow> bool" where
  "embedding_table n t =
     (case t of Mat E \<Rightarrow> length E = n \<and> list_all (\<lambda>r. length r = n) E | Vec v \<Rightarrow> False)"

text \<open>
  A generator as \<open>Generator_init\<close> builds it: an \<open>n_classes\<close> by \<open>n_classes\<close> label
  table, layers that chain from \<open>latent_dim + n_classes\<close> to the number of entries of
  an image, and \<open>Tanh\<close> last.
\<close>

definition generator_wf :: "state \<Rightarrow> generator \<Rightarrow> nat \<Rightarrow> nat \<Rightarrow> bool" where
  "generator_wf s g n_classes latent_dim =
     (embedding_table n_classes (pval (heap s (label_emb g))) \<and>
      gen_model g \<noteq> [] \<and> last (gen_model g) = Tanh \<and>
      layers_fit s (latent_dim + n_classes) (gen_model g) = Some (prod_list (gen_img_shape g)))"

subsection \<open>Events a statement adds\<close>

text \<open>The events of a trace that a predicate keeps, in order.\<close>

definition obs :: "(event \<Rightarrow> bool) \<Rightarrow> state \<Rightarrow> event list" where
  "obs keep s = filter keep (trace s)"

text \<open>The marks of a run: its optimizer steps and the images it saves.\<close>

fun is_mark :: "event \<Rightarrow> bool" where
  "is_mark (OptimizerStep i) = True"
| "is_mark (SavedImage p) = True"
| "is_mark ev = False"

text \<open>
  \<open>yields keep m xs\<close>: whatever the outcome of \<open>m\<close>, the kept events it adds to the
  trace are a prefix of \<open>xs\<close>, and they are all of \<open>xs\<close> when \<open>m\<close> returns.
\<close>

definition yields :: "(event \<Rightarrow> bool) \<Rightarrow> 'a action \<Rightarrow> event list \<Rightarrow> bool" where
  "yields keep m xs =
     (\<forall>s r s'. m s = (r, s') \<longrightarrow>
        (\<exists>new. obs keep s' = obs keep s @ new \<and> (\<exists>rest. xs = new @ rest) \<and>
               (\<forall>a. r = Ok a \<longrightarrow> new = xs)))"

text \<open>The marks of one epoch over \<open>len\<close> batches.\<close>

definition epoch_marks :: "optimizer \<Rightarrow> optimizer \<Rightarrow> nat \<Rightarrow> nat \<Rightarrow> event list" where
  "epoch_marks od og len e =
     concat (replicate len [OptimizerStep (opt_id od), OptimizerStep (opt_id og)]) @
     [SavedImage (png_path e)]"

text \<open>The directories and the files of the file system.\<close>

definition storage :: "state \<Rightarrow> string list \<times> (string \<Rightarrow> png option)" where
  "storage s = (dirs s, files s)"

subsection \<open>Losses\<close>

text \<open>The batch losses of a trace, and the loss plot \<open>train_model\<close> ends with.\<close>

fun is_loss :: "event \<Rightarrow> bool" where
  "is_loss (BatchLosses dr df g) = True"
| "is_loss ev = False"

fun is_loss_plot :: "event \<Rightarrow> bool" where
  "is_loss_plot (Shown (LossPlot l)) = True"
| "is_loss_plot ev = False"

text \<open>
  Of the three losses of a batch: the generator's loss, and the discriminator's loss
  \<^verbatim>\<open>(d_real_loss + d_fake_loss) / 2\<close>, a single-precision tensor.
\<close>

definition batch_g :: "fl \<times> fl \<times> fl \<Rightarrow> fl" where
  "batch_g l = snd (snd l)"

definition batch_d :: "fl \<times> fl \<times> fl \<Rightarrow> fl" where
  "batch_d l = div_fl FLT_MAX (add_fl FLT_MAX (fst l) (fst (snd l))) 2"

text \<open>
  The sum of the losses of the batches, added up from \<open>0.0\<close> in double precision,
  divided by the number of batches.
\<close>

definition epoch_mean :: "fl list \<Rightarrow> nat \<Rightarrow> fl" where
  "epoch_mean xs n = div_fl DBL_MAX (foldl py_add (Fin 0) xs) (real n)"

text \<open>
  \<open>ok_rel m R\<close>: every run of \<open>m\<close> that returns relates the state before, the value
  returned and the state after by \<open>R\<close>.
\<close>

definition ok_rel :: "'a action \<Rightarrow> (state \<Rightarrow> 'a \<Rightarrow> state \<Rightarrow> bool) \<Rightarrow> bool" where
  "ok_rel m R = (\<forall>s a s'. m s = (Ok a, s') \<longrightarrow> R s a s')"

section \<open>A small instance\<close>

text \<open>
  A two-class problem on one-pixel images, with one-layer networks and collaborators
  that never fail: small enough to run the definitions above on it.
\<close>

definition demo_fw :: framework where
  "demo_fw =
     \<lparr>fault = (\<lambda>st s. None), cuda_is_available = False, normal_stream = (\<lambda>n. Fin 0),
      randint_stream = (\<lambda>n. n), uniform_stream = (\<lambda>n. 1), index_stream = (\<lambda>n. 0),
      init_stream = (\<lambda>n. Fin 0), mnist = (\<lambda>sz. [([Fin 1], 0), ([Fin 0], 1)]),
      autograd = (\<lambda>s g a. Vec []),
      adam_rule = (\<lambda>rate slot p g. (p, \<lparr>step_count = 1, exp_avg = g, exp_avg_sq = g\<rparr>)),
      bce_with_logits = MSELoss\<rparr>"

text \<open>The same collaborators with a file system that refuses every call.\<close>

definition failing_fw :: framework where
  "failing_fw =
     demo_fw\<lparr>fault := (\<lambda>st s. if st = AtFileSystem then Some (External ''disk full'') else None)\<rparr>"

definition demo_generator :: generator where
  "demo_generator =
     \<lparr>gen_id = 0, label_emb = 0, gen_img_shape = [1], gen_model = [Linear 1 2, Tanh]\<rparr>"

definition demo_discriminator :: discriminator where
  "demo_discriminator =
     \<lparr>disc_id = 1, label_embedding = 3,
      disc_model = [Linear 4 5, LeakyReLU 0.2, Dropout 0.3, Linear 6 7]\<rparr>"

definition demo_heap :: "addr \<Rightarrow> cell" where
  "demo_heap a =
     \<lparr>pval = (if a = 0 then Mat [[Fin 0, Fin 0], [Fin 0, Fin 0]]
              else if a = 1 then Mat [[Fin 0, Fin 0, Fin 0]]
              else if a = 2 then Vec [Fin 0]
              else if a = 3 then Mat [[Fin 0, Fin 0], [Fin 0, Fin 0]]
              else if a = 4 then Mat [[Fin 0, Fin 0, Fin 0]]
              else if a = 5 then Vec [Fin 0]
              else if a = 6 then Mat [[Fin 0]]
              else Vec [Fin 0]),
      grad = None\<rparr>"

definition demo_state :: state where
  "demo_state =
     \<lparr>TRAIN_PARAMETERS = \<lparr>batch_size = 1, num_classes = 2, img_shape = [1], epochs = 1,
                           learning_rate = 0.0002\<rparr>,
      MODEL_HYPERPARAMETERS = \<lparr>generator_latent_dim = 1\<rparr>,
      DEVICE = CPU, heap = demo_heap, next_addr = 8, training = (\<lambda>i. True), next_id = 4,
      slots = (\<lambda>i a. None), np_rng = 0, torch_rng = 0, dirs = [], files = (\<lambda>p. None),
      trace = []\<rparr>"

definition demo_optimizer_G :: optimizer where
  "demo_optimizer_G = \<lparr>opt_id = 2, opt_params = [0, 1, 2], opt_lr = 0.0002\<rparr>"

definition demo_optimizer_D :: optimizer where
  "demo_optimizer_D = \<lparr>opt_id = 3, opt_params = [3, 4, 5, 6, 7], opt_lr = 0.0002\<rparr>"

definition demo_dataloader :: dataloader where
  "demo_dataloader =
     \<lparr>dataset = [([Fin 1], 0), ([Fin 0], 1)], dl_sample_shape = [1], dl_batch_size = 1\<rparr>"

text \<open>
  A generator with the layer sizes of \<open>Generator_init\<close> for one class, one latent
  dimension and one-pixel images, whose first layer doubles the noise and whose other
  weights are zero.
\<close>

definition nan_generator :: generator where
  "nan_generator =
     \<lparr>gen_id = 0, label_emb = 0, gen_img_shape = [1],
      gen_model = [Linear 1 2, LeakyReLU 0.2, Linear 3 4, LeakyReLU 0.2,
                   Linear 5 6, LeakyReLU 0.2, Linear 7 8, Tanh]\<rparr>"

definition nan_heap :: "addr \<Rightarrow> cell" where
  "nan_heap a =
     \<lparr>pval = (if a = 0 then Mat [[Fin 0]]
              else if a = 1 then Mat (replicate 256 [Fin 0, Fin 2])
              else if a = 2 then Vec (replicate 256 (Fin 0))
              else if a = 3 then Mat (replicate 512 (replicate 256 (Fin 0)))
              else if a = 4 then Vec (replicate 512 (Fin 0))
              else if a = 5 then Mat (replicate 1024 (replicate 512 (Fin 0)))
              else if a = 6 then Vec (replicate 1024 (Fin 0))
              else if a = 7 then Mat [replicate 1024 (Fin 0)]
              else Vec [Fin 0]),
      grad = None\<rparr>"

definition nan_state :: state where
  "nan_state = demo_state\<lparr>heap := nan_heap\<rparr>"


section \<open>Basic facts\<close>

subsection \<open>The label grid\<close>

lemma nth_concat_replicate:
  "i < n * length xs \<Longrightarrow> concat (replicate n xs) ! i = xs ! (i mod length xs)"
proof (induction n arbitrary: i)
  case 0
  then show ?case by simp
next
  case (Suc n)
  show ?case
  proof (cases "i < length xs")
    case True
    then show ?thesis by (simp add: nth_append)
  next
    case False
    with Suc.prems have "i - length xs < n * length xs" by simp
    from Suc.IH [OF this] False show ?thesis
      by (simp add: nth_append le_mod_geq)
  qed
qed

lemma grid_labels_replicate: "grid_labels n = concat (replicate n (map int [0..<n]))"
  by (simp add: grid_labels_def map_replicate_const)

lemma length_grid_labels: "length (grid_labels n) = n ^ 2"
  by (simp add: grid_labels_replicate length_concat sum_list_replicate power2_eq_square)

lemma nth_grid_labels: "i < n ^ 2 \<Longrightarrow> grid_labels n ! i = int (i mod n)"
proof -
  assume a: "i < n ^ 2"
  then have n0: "0 < n" by (cases n) auto
  from a have "i < n * length (map int [0..<n])" by (simp add: power2_eq_square)
  then have "grid_labels n ! i = map int [0..<n] ! (i mod length (map int [0..<n]))"
    unfolding grid_labels_replicate by (rule nth_concat_replicate)
  with n0 show ?thesis by simp
qed

lemma count_list_concat_replicate:
  "count_list (concat (replicate n xs)) x = n * count_list xs x"
  by (induction n) simp_all


lemma count_list_upt: "count_list (map int [0..<n]) (int c) = (if c < n then 1 else 0)"
  by (induction n) auto

lemma count_grid_labels: "c < n \<Longrightarrow> count_list (grid_labels n) (int c) = n"
  by (simp add: grid_labels_replicate count_list_concat_replicate count_list_upt)

lemma grid_labels_position: "r < n \<Longrightarrow> c < n \<Longrightarrow> grid_labels n ! (r * n + c) = int c"
proof -
  assume r: "r < n" and c: "c < n"
  have "r * n + c < Suc r * n" using c by simp
  also have "\<dots> \<le> n * n" using r by (intro mult_le_mono1) simp
  finally have "r * n + c < n ^ 2" by (simp add: power2_eq_square)
  then have "grid_labels n ! (r * n + c) = int ((r * n + c) mod n)" by (rule nth_grid_labels)
  with c show ?thesis by simp
qed

subsection \<open>Sequencing\<close>

lemma bind_unfold:
  "bind m f s = (case m s of (Ok a, s') \<Rightarrow> f a s' | (Raise e, s') \<Rightarrow> (Raise e, s'))"
  by (cases "m s") (auto simp: bind_def split: result.splits)

lemma bind_Ok:
  "bind m f s = (Ok b, s') \<longleftrightarrow> (\<exists>a s1. m s = (Ok a, s1) \<and> f a s1 = (Ok b, s'))"
  by (auto simp: bind_unfold split: prod.splits result.splits)

lemma bind_Raise:
  "bind m f s = (Raise e, s') \<longleftrightarrow>
     m s = (Raise e, s') \<or> (\<exists>a s1. m s = (Ok a, s1) \<and> f a s1 = (Raise e, s'))"
  by (auto simp: bind_unfold split: prod.splits result.splits)

lemma collab_Ok:
  "collab fw st m s = (Ok a, s') \<longleftrightarrow> fault fw st s = None \<and> m s = (Ok a, s')"
  by (auto simp: collab_def split: option.splits)

lemma ret_eq: "ret a s = (r, s') \<longleftrightarrow> r = Ok a \<and> s' = s"
  by (auto simp: ret_def)

lemma lift_eq: "lift r s = (r', s') \<longleftrightarrow> r' = r \<and> s' = s"
  by (auto simp: lift_def)

lemma raise_eq: "raise e s = (r, s') \<longleftrightarrow> r = Raise e \<and> s' = s"
  by (auto simp: raise_def)

lemma to_device_Ok:
  "to_device fw dev x s = (Ok y, s') \<longleftrightarrow> fault fw AtToDevice s = None \<and> y = x \<and> s' = s"
  by (auto simp: to_device_def collab_Ok ret_eq)

lemma fst_Ok_ex: "fst (m s) = Ok a \<Longrightarrow> \<exists>s'. m s = (Ok a, s')"
  by (cases "m s") simp

subsection \<open>save_reconstruction\<close>

lemma np_random_normal_Ok:
  "np_random_normal fw r c s = (Ok z, s') \<Longrightarrow>
     length z = r \<and> list_all (\<lambda>row. length row = c) z \<and> trace s' = trace s \<and> heap s' = heap s"
  by (auto simp: np_random_normal_def collab_Ok list_all_iff)

lemma save_image_Ok:
  "save_image fw img path nrow s = (Ok u, s') \<Longrightarrow>
     files s' path = Some (img, nrow) \<and> trace s' = trace s @ [SavedImage path] \<and>
     dirs s' = dirs s \<and> parent_dir path \<in> set (dirs s)"
  by (auto simp: save_image_def collab_Ok split: if_splits)

lemma plt_imread_Ok:
  "plt_imread fw path s = (Ok p, s') \<Longrightarrow> files s path = Some p \<and> s' = s"
  by (auto simp: plt_imread_def collab_Ok split: option.splits)

lemma save_reconstruction_Ok:
  assumes "save_reconstruction fw g ld n e dev s = (Ok img, s')"
  shows "\<exists>z x gr s1 s2. length z = n ^ 2 \<and> list_all (\<lambda>row. length row = ld) z \<and>
           Generator_forward fw g z (grid_labels n) s1 = (Ok (x, gr), s2) \<and> img = (x, n)"
proof -
  from assms obtain z gen_imgs s1 s2 s3 s4 u where
      z: "np_random_normal fw (n ^ 2) ld s1 = (Ok z, s2)"
    and g: "Generator_forward fw g z (grid_labels n) s2 = (Ok gen_imgs, s3)"
    and w: "save_image fw (fst gen_imgs) (png_path e) n s3 = (Ok u, s4)"
    and r: "plt_imread fw (png_path e) s4 = (Ok img, s')"
    unfolding save_reconstruction_def by (auto simp: bind_Ok to_device_Ok)
  from w r have "img = (fst gen_imgs, n)"
    by (auto dest!: save_image_Ok plt_imread_Ok)
  with z g show ?thesis
    by (cases gen_imgs) (auto dest!: np_random_normal_Ok)
qed

subsection \<open>Running the small instance\<close>

lemmas demo_defs = demo_fw_def demo_generator_def demo_discriminator_def demo_heap_def
  demo_state_def demo_optimizer_G_def demo_optimizer_D_def demo_dataloader_def

lemmas run_defs = bind_def ret_def raise_def lift_def collab_def emit_def to_device_def
  np_random_normal_def np_random_randint_def makedirs_def save_image_def plt_imread_def
  Generator_forward_def Discriminator_forward_def embedding_def cat_last_def view_as_def
  view_flat_def linear_batch_def linear_row_def dot_def dropout_row_def overflow_def
  FLT_MAX_def DBL_MAX_def sub_fl_def inf_times_def sum_fl_def py_add_def mean_def
  png_path_def parent_dir_def grid_labels_def gen_parameters_def disc_parameters_def
  detach_def zero_grad_def backward_def accumulate_grads_def step_def adam_step_def
  accumulate_def update_cells_def adam_param_def apply_loss_def half_sum_def
  module_eval_def module_train_def py_div_def init_figure_def plot_current_results_def
  plot_loss_def iterate_def collate_def len_dataloader_def

lemma demo_save_reconstruction:
  "fst (save_reconstruction demo_fw demo_generator 1 2 0 CPU demo_state) =
     Ok (\<lparr>sample_shape = [1], samples = [[Fin 0], [Fin 0], [Fin 0], [Fin 0]]\<rparr>, 2)"
  by (simp add: save_reconstruction_def demo_defs run_defs upt_rec show_nat.simps digit_char_def)

subsection \<open>Shapes through the layers\<close>

lemma linear_row_fit:
  "length b = length W \<Longrightarrow> list_all (\<lambda>w. length w = length x) W \<Longrightarrow>
     \<exists>y. linear_row W b x = Ok y \<and> length y = length W"
  by (simp add: linear_row_def)

lemma linear_batch_fit:
  assumes "length b = length W" "list_all (\<lambda>w. length w = d) W"
    and "list_all (\<lambda>r. length r = d) X"
  shows "\<exists>Y. linear_batch W b X = Ok Y \<and> length Y = length X \<and>
           list_all (\<lambda>r. length r = length W) Y"
  using assms(3)
proof (induction X)
  case Nil
  then show ?case by (simp add: linear_batch_def)
next
  case (Cons x X)
  then obtain Y where Y: "linear_batch W b X = Ok Y" "length Y = length X"
      "list_all (\<lambda>r. length r = length W) Y" by auto
  from Cons.prems assms(1,2) obtain y where y: "linear_row W b x = Ok y" "length y = length W"
    using linear_row_fit [of b W x] by auto
  from Y y show ?case by (simp add: linear_batch_def)
qed

lemma length_dropout_rows: "length (dropout_rows fw p pos x) = length x"
  by (induction x arbitrary: pos) simp_all

lemma dropout_rows_widths:
  "list_all (\<lambda>r. length r = d) x \<Longrightarrow> list_all (\<lambda>r. length r = d) (dropout_rows fw p pos x)"
  by (induction x arbitrary: pos) (simp_all add: dropout_row_def)

lemma layers_fit_heap: "heap s' = heap s \<Longrightarrow> layers_fit s' d ls = layers_fit s d ls"
  by (induction s d ls rule: layers_fit.induct) (simp_all split: tensor.splits)

lemma layer_forward_fit:
  assumes "layers_fit s d [l] = Some d'" "list_all (\<lambda>r. length r = d) x"
  shows "\<exists>y s'. layer_forward fw tr l x s = (Ok y, s') \<and> length y = length x \<and>
           list_all (\<lambda>r. length r = d') y \<and> heap s' = heap s"
proof (cases l)
  case (Linear w b)
  with assms(1) obtain W bv where W: "pval (heap s w) = Mat W" "pval (heap s b) = Vec bv"
      "length bv = length W" "list_all (\<lambda>r. length r = d) W" "d' = length W"
    by (auto split: tensor.splits if_splits)
  from linear_batch_fit [OF W(3,4) assms(2)] W Linear show ?thesis by auto
next
  case (LeakyReLU a)
  with assms show ?thesis by (auto simp: list_all_iff)
next
  case Tanh
  with assms show ?thesis by (auto simp: list_all_iff)
next
  case (Dropout p)
  with assms show ?thesis by (auto simp: length_dropout_rows dropout_rows_widths)
qed

lemma layers_fit_Cons:
  "layers_fit s d (l # ls) = Some d' \<Longrightarrow>
     \<exists>d1. layers_fit s d [l] = Some d1 \<and> layers_fit s d1 ls = Some d'"
  by (cases l) (auto split: tensor.splits if_splits)

lemma sequential_fit:
  "layers_fit s d ls = Some d' \<Longrightarrow> list_all (\<lambda>r. length r = d) x \<Longrightarrow>
     \<exists>y s'. sequential fw tr ls x s = (Ok y, s') \<and> length y = length x \<and>
       list_all (\<lambda>r. length r = d') y \<and> heap s' = heap s"
proof (induction ls arbitrary: s d x)
  case Nil
  then show ?case by (simp add: ret_def)
next
  case (Cons l ls)
  from layers_fit_Cons [OF Cons.prems(1)] obtain d1 where
    d1: "layers_fit s d [l] = Some d1" "layers_fit s d1 ls = Some d'" by auto
  from layer_forward_fit [OF d1(1) Cons.prems(2), of fw tr] obtain y1 s1 where
    y1: "layer_forward fw tr l x s = (Ok y1, s1)" "length y1 = length x"
      "list_all (\<lambda>r. length r = d1) y1" "heap s1 = heap s"
    by (elim exE conjE)
  from d1(2) have "layers_fit s1 d1 ls = Some d'" by (simp only: layers_fit_heap [OF y1(4)])
  from Cons.IH [OF this y1(3)] obtain y s' where
    y: "sequential fw tr ls y1 s1 = (Ok y, s')" "length y = length y1"
    "list_all (\<lambda>r. length r = d') y" "heap s' = heap s1"
    by (elim exE conjE)
  have "sequential fw tr (l # ls) x s = (Ok y, s')"
    using y1(1) y(1) by (simp add: bind_unfold)
  with y y1 show ?case by simp
qed

lemma sequential_append:
  "sequential fw tr (ls @ ms) x = bind (sequential fw tr ls x) (sequential fw tr ms)"
proof (induction ls arbitrary: x)
  case Nil
  show ?case by (rule ext) (simp add: bind_unfold ret_def)
next
  case (Cons l ls)
  show ?case
    by (rule ext) (simp add: Cons bind_unfold split: prod.splits result.splits)
qed

lemma tanh_fl_range: "tanh_fl v = NaN \<or> in_unit_interval (tanh_fl v)"
proof (cases v)
  case (Fin a)
  then show ?thesis
    using tanh_real_gt_neg1 [of a] tanh_real_lt_1 [of a] by simp
qed simp_all

lemma sequential_Tanh_last:
  assumes "ls \<noteq> []" "last ls = Tanh" "sequential fw tr ls x s = (Ok y, s')"
  shows "list_all (list_all (\<lambda>v. v = NaN \<or> in_unit_interval v)) y"
proof -
  from assms(1,2) obtain bs where bs: "ls = bs @ [Tanh]"
    using append_butlast_last_id [of ls] by metis
  from assms(3) obtain y0 where "y = map (map tanh_fl) y0"
    unfolding bs by (auto simp: sequential_append bind_Ok ret_eq)
  then show ?thesis by (simp add: list_all_iff tanh_fl_range)
qed

lemma embedding_fit:
  assumes "embedding_table n (pval (heap s a))" "list_all (\<lambda>l. 0 \<le> l \<and> l < int n) labels"
  shows "\<exists>emb. embedding a labels s = (Ok emb, s) \<and> length emb = length labels \<and>
           list_all (\<lambda>r. length r = n) emb"
proof -
  from assms(1) obtain E where E: "pval (heap s a) = Mat E" "length E = n"
      "list_all (\<lambda>r. length r = n) E"
    by (auto simp: embedding_table_def split: tensor.splits)
  have "length (E ! nat l) = n" if "l \<in> set labels" for l
  proof -
    from that assms(2) have "nat l < length E" by (auto simp: list_all_iff E(2))
    with E(3) show ?thesis by (auto simp: list_all_iff)
  qed
  with E assms(2) show ?thesis by (auto simp: embedding_def list_all_iff)
qed

lemma demo_generator_wf: "generator_wf demo_state demo_generator 2 1"
  by (simp add: generator_wf_def embedding_table_def demo_defs)

lemma length_init_vec [simp]: "length (init_vec fw n pos) = n"
  by (simp add: init_vec_def)

lemma length_init_mat [simp]: "length (init_mat fw r c pos) = r"
  by (simp add: init_mat_def)

lemma init_mat_widths [simp]: "list_all (\<lambda>row. length row = c) (init_mat fw r c pos)"
  by (simp add: init_mat_def list_all_iff)

lemma np_prod_small: "prod_list shp < 2 ^ 63 \<Longrightarrow> np_prod shp = int (prod_list shp)"
proof -
  assume a: "prod_list shp < 2 ^ 63"
  then have "int (prod_list shp) < 2 ^ 63" 
    by (metis of_nat_less_iff of_nat_numeral of_nat_power)
  then show ?thesis by (simp add: np_prod_def Let_def)
qed

lemma Generator_init_wf:
  assumes "Generator_init fw n_classes shp latent_dim s = (Ok g, s')"
    and "prod_list shp < 2 ^ 63"
  shows "generator_wf s' g n_classes latent_dim \<and> gen_img_shape g = shp"
  using assms(1)
  unfolding Generator_init_def block_def nn_Linear_def nn_Embedding_def new_mat_def
    new_vec_def alloc_def new_module_def layer_size_def np_prod_small [OF assms(2)]
  by (auto simp: collab_Ok bind_Ok ret_eq raise_eq generator_wf_def embedding_table_def
        split: if_splits)

lemma notebook_generator:
  "fst (Generator_init demo_fw 10 [1, 28, 28] 100 demo_state) =
     Ok \<lparr>gen_id = 4, label_emb = 8, gen_img_shape = [1, 28, 28],
         gen_model = [Linear 9 10, LeakyReLU 0.2, Linear 11 12, LeakyReLU 0.2,
                      Linear 13 14, LeakyReLU 0.2, Linear 15 16, Tanh]\<rparr>"
  by (simp add: Generator_init_def block_def nn_Linear_def nn_Embedding_def new_mat_def
        new_vec_def alloc_def new_module_def layer_size_def np_prod_def Let_def
        collab_def bind_def ret_def raise_def demo_fw_def demo_state_def)

lemma foldl_add_replicate_NaN:
  "0 < n \<Longrightarrow> foldl (add_fl mx) (Fin 0) (replicate n NaN) = NaN"
proof -
  have a: "foldl (add_fl mx) NaN (replicate k NaN) = NaN" for k
    by (induction k) simp_all
  assume "0 < n"
  then obtain k where "n = Suc k" by (cases n) auto
  then show ?thesis by (simp add: a)
qed

lemma list_all_replicate: "list_all P (replicate n x) \<longleftrightarrow> n = 0 \<or> P x"
  by (auto simp: list_all_iff)

lemma nan_generator_wf: "generator_wf nan_state nan_generator 1 1"
  by (simp add: generator_wf_def embedding_table_def nan_state_def nan_generator_def
        nan_heap_def list_all_replicate)

lemma nan_forward:
  "Generator_forward demo_fw nan_generator [[Fin (3 * 10 ^ 38)]] [0] nan_state =
     (Ok (\<lparr>sample_shape = [1], samples = [[NaN]]\<rparr>, Node [0, 1, 2, 3, 4, 5, 6, 7, 8] []),
      nan_state)"
  by (simp add: Generator_forward_def collab_def bind_def ret_def lift_def embedding_def
        cat_last_def view_as_def linear_batch_def linear_row_def dot_def gen_parameters_def
        nan_state_def nan_generator_def nan_heap_def demo_fw_def demo_state_def
        list_all_replicate foldl_add_replicate_NaN overflow_def FLT_MAX_def inf_times_def
        sum_fl_def)

section \<open>What each statement leaves alone\<close>

subsection \<open>Frames\<close>

lemma frameD: "frame F m \<Longrightarrow> F (snd (m s)) = F s"
  by (simp add: frame_def)

lemma frameD2: "frame F m \<Longrightarrow> m s = (r, s') \<Longrightarrow> F s' = F s"
  by (auto simp: frame_def dest: spec [of _ s])

lemma frame_bind [frame_intros]:
  "frame F m \<Longrightarrow> (\<And>a. frame F (f a)) \<Longrightarrow> frame F (bind m f)"
  by (auto simp: frame_def bind_unfold split: prod.splits result.splits)
     (metis snd_conv)+

lemma frame_ret [frame_intros]: "frame F (ret a)"
  by (simp add: frame_def ret_def)

lemma frame_raise [frame_intros]: "frame F (raise e)"
  by (simp add: frame_def raise_def)

lemma frame_lift [frame_intros]: "frame F (lift r)"
  by (simp add: frame_def lift_def)

lemma frame_if [frame_intros]:
  "frame F a \<Longrightarrow> frame F b \<Longrightarrow> frame F (if c then a else b)"
  by simp

lemma frame_for_each [frame_intros]:
  "(\<And>x acc. frame F (body x acc)) \<Longrightarrow> frame F (for_each body xs acc)"
  by (induction xs arbitrary: acc) (simp_all add: frame_ret frame_bind)

subsection \<open>Loops over parameter cells\<close>

lemma update_cells_outside: "a \<notin> set ps \<Longrightarrow> update_cells f ps h a = h a"
  unfolding update_cells_def by (induction ps arbitrary: h) auto

lemma update_cells_pval:
  "(\<And>b c. pval (f b c) = pval c) \<Longrightarrow> pval (update_cells f ps h a) = pval (h a)"
  unfolding update_cells_def by (induction ps arbitrary: h) auto

lemma adam_fold_outside:
  "a \<notin> set ps \<Longrightarrow> fst (fold (adam_param fw rate) ps hs) a = fst hs a"
  by (induction ps arbitrary: hs) (auto simp: adam_param_def split: option.splits)

subsection \<open>Primitive statements\<close>

lemma emit_config [frame_intros]: "frame config (emit ev)"
  by (auto simp: frame_def config_def emit_def split: option.splits result.splits tensor.splits)

lemma emit_values [frame_intros]: "frame param_values (emit ev)"
  by (auto simp: frame_def param_values_def emit_def split: option.splits result.splits tensor.splits)

lemma to_device_config [frame_intros]: "frame config (to_device fw dev x)"
  by (auto simp: frame_def config_def to_device_def collab_def ret_def split: option.splits result.splits tensor.splits)

lemma to_device_values [frame_intros]: "frame param_values (to_device fw dev x)"
  by (auto simp: frame_def param_values_def to_device_def collab_def ret_def split: option.splits result.splits tensor.splits)

lemma to_device_quiet [quiet_intros]: "quiet (to_device fw dev x)"
  by (auto simp: quiet_def to_device_def collab_def ret_def split: option.splits result.splits tensor.splits if_splits)

lemma np_random_normal_config [frame_intros]: "frame config (np_random_normal fw r c)"
  by (auto simp: frame_def config_def np_random_normal_def collab_def split: option.splits result.splits tensor.splits)

lemma np_random_normal_values [frame_intros]: "frame param_values (np_random_normal fw r c)"
  by (auto simp: frame_def param_values_def np_random_normal_def collab_def split: option.splits result.splits tensor.splits)

lemma np_random_normal_quiet [quiet_intros]: "quiet (np_random_normal fw r c)"
  by (auto simp: quiet_def np_random_normal_def collab_def split: option.splits result.splits tensor.splits if_splits)

lemma np_random_randint_config [frame_intros]: "frame config (np_random_randint fw lo hi n)"
  by (auto simp: frame_def config_def np_random_randint_def collab_def split: option.splits result.splits tensor.splits)

lemma np_random_randint_values [frame_intros]: "frame param_values (np_random_randint fw lo hi n)"
  by (auto simp: frame_def param_values_def np_random_randint_def collab_def split: option.splits result.splits tensor.splits)

lemma np_random_randint_quiet [quiet_intros]: "quiet (np_random_randint fw lo hi n)"
  by (auto simp: quiet_def np_random_randint_def collab_def split: option.splits result.splits tensor.splits if_splits)

lemma embedding_config [frame_intros]: "frame config (embedding a labels)"
  by (auto simp: frame_def config_def embedding_def split: option.splits result.splits tensor.splits)

lemma embedding_values [frame_intros]: "frame param_values (embedding a labels)"
  by (auto simp: frame_def param_values_def embedding_def split: option.splits result.splits tensor.splits)

lemma embedding_quiet [quiet_intros]: "quiet (embedding a labels)"
  by (auto simp: quiet_def embedding_def split: option.splits result.splits tensor.splits if_splits)

lemma alloc_config [frame_intros]: "frame config (alloc t)"
  by (auto simp: frame_def config_def alloc_def split: option.splits result.splits tensor.splits)

lemma alloc_quiet [quiet_intros]: "quiet (alloc t)"
  by (auto simp: quiet_def alloc_def split: option.splits result.splits tensor.splits if_splits)

lemma new_module_config [frame_intros]: "frame config (new_module)"
  by (auto simp: frame_def config_def new_module_def split: option.splits result.splits tensor.splits)

lemma new_module_values [frame_intros]: "frame param_values (new_module)"
  by (auto simp: frame_def param_values_def new_module_def split: option.splits result.splits tensor.splits)

lemma new_module_quiet [quiet_intros]: "quiet (new_module)"
  by (auto simp: quiet_def new_module_def split: option.splits result.splits tensor.splits if_splits)

lemma Adam_config [frame_intros]: "frame config (Adam ps rate)"
  by (auto simp: frame_def config_def Adam_def split: option.splits result.splits tensor.splits)

lemma Adam_values [frame_intros]: "frame param_values (Adam ps rate)"
  by (auto simp: frame_def param_values_def Adam_def split: option.splits result.splits tensor.splits)

lemma Adam_quiet [quiet_intros]: "quiet (Adam ps rate)"
  by (auto simp: quiet_def Adam_def split: option.splits result.splits tensor.splits if_splits)

lemma zero_grad_config [frame_intros]: "frame config (zero_grad opt)"
  by (auto simp: frame_def config_def zero_grad_def split: option.splits result.splits tensor.splits)

lemma zero_grad_values [frame_intros]: "frame param_values (zero_grad opt)"
  by (simp add: frame_def param_values_def zero_grad_def update_cells_pval)

lemma zero_grad_quiet [quiet_intros]: "quiet (zero_grad opt)"
  by (auto simp: quiet_def zero_grad_def split: option.splits result.splits tensor.splits if_splits)

lemma backward_config [frame_intros]: "frame config (backward fw loss)"
  by (auto simp: frame_def config_def backward_def accumulate_grads_def collab_def
        split: option.splits)

lemma backward_values [frame_intros]: "frame param_values (backward fw loss)"
  by (auto simp: frame_def param_values_def backward_def accumulate_grads_def collab_def
        accumulate_def update_cells_pval split: option.splits)

lemma backward_quiet [quiet_intros]: "quiet (backward fw loss)"
  by (auto simp: quiet_def backward_def accumulate_grads_def collab_def split: option.splits)

lemma step_config [frame_intros]: "frame config (step fw opt)"
  by (auto simp: frame_def config_def step_def adam_step_def collab_def split: option.splits)

lemma apply_loss_config [frame_intros]: "frame config (apply_loss fw adv_loss validity target)"
  by (auto simp: frame_def config_def apply_loss_def collab_def bind_unfold lift_def ret_def split: option.splits result.splits tensor.splits)

lemma apply_loss_values [frame_intros]: "frame param_values (apply_loss fw adv_loss validity target)"
  by (auto simp: frame_def param_values_def apply_loss_def collab_def bind_unfold lift_def ret_def split: option.splits result.splits tensor.splits)

lemma apply_loss_quiet [quiet_intros]: "quiet (apply_loss fw adv_loss validity target)"
  by (auto simp: quiet_def apply_loss_def collab_def bind_unfold lift_def ret_def split: option.splits result.splits tensor.splits if_splits)

lemma iterate_config [frame_intros]: "frame config (iterate fw dl)"
  by (auto simp: frame_def config_def iterate_def collab_def split: option.splits result.splits tensor.splits)

lemma iterate_values [frame_intros]: "frame param_values (iterate fw dl)"
  by (auto simp: frame_def param_values_def iterate_def collab_def split: option.splits result.splits tensor.splits)

lemma iterate_quiet [quiet_intros]: "quiet (iterate fw dl)"
  by (auto simp: quiet_def iterate_def collab_def split: option.splits result.splits tensor.splits if_splits)

lemma makedirs_config [frame_intros]: "frame config (makedirs fw name)"
  by (auto simp: frame_def config_def makedirs_def collab_def split: option.splits result.splits tensor.splits)

lemma makedirs_values [frame_intros]: "frame param_values (makedirs fw name)"
  by (auto simp: frame_def param_values_def makedirs_def collab_def split: option.splits result.splits tensor.splits)

lemma makedirs_quiet [quiet_intros]: "quiet (makedirs fw name)"
  by (auto simp: quiet_def makedirs_def collab_def split: option.splits result.splits tensor.splits if_splits)

lemma save_image_config [frame_intros]: "frame config (save_image fw img path nrow)"
  by (auto simp: frame_def config_def save_image_def collab_def split: option.splits result.splits tensor.splits)

lemma save_image_values [frame_intros]: "frame param_values (save_image fw img path nrow)"
  by (auto simp: frame_def param_values_def save_image_def collab_def split: option.splits result.splits tensor.splits)

lemma plt_imread_config [frame_intros]: "frame config (plt_imread fw path)"
  by (auto simp: frame_def config_def plt_imread_def collab_def split: option.splits result.splits tensor.splits)

lemma plt_imread_values [frame_intros]: "frame param_values (plt_imread fw path)"
  by (auto simp: frame_def param_values_def plt_imread_def collab_def split: option.splits result.splits tensor.splits)

lemma plt_imread_quiet [quiet_intros]: "quiet (plt_imread fw path)"
  by (auto simp: quiet_def plt_imread_def collab_def split: option.splits result.splits tensor.splits if_splits)

lemma init_figure_config [frame_intros]: "frame config (init_figure fw)"
  by (auto simp: frame_def config_def init_figure_def collab_def ret_def split: option.splits result.splits tensor.splits)

lemma init_figure_values [frame_intros]: "frame param_values (init_figure fw)"
  by (auto simp: frame_def param_values_def init_figure_def collab_def ret_def split: option.splits result.splits tensor.splits)

lemma init_figure_quiet [quiet_intros]: "quiet (init_figure fw)"
  by (auto simp: quiet_def init_figure_def collab_def ret_def split: option.splits result.splits tensor.splits if_splits)

lemma plot_current_results_config [frame_intros]: "frame config (plot_current_results fw im ml fa)"
  by (auto simp: frame_def config_def plot_current_results_def collab_def emit_def raise_def split: option.splits result.splits tensor.splits)

lemma plot_current_results_values [frame_intros]: "frame param_values (plot_current_results fw im ml fa)"
  by (auto simp: frame_def param_values_def plot_current_results_def collab_def emit_def raise_def split: option.splits result.splits tensor.splits)

lemma plot_loss_config [frame_intros]: "frame config (plot_loss fw ml)"
  by (auto simp: frame_def config_def plot_loss_def collab_def emit_def split: option.splits result.splits tensor.splits)

lemma plot_loss_values [frame_intros]: "frame param_values (plot_loss fw ml)"
  by (auto simp: frame_def param_values_def plot_loss_def collab_def emit_def split: option.splits result.splits tensor.splits)

lemma module_eval_config [frame_intros]: "frame config (module_eval i)"
  by (auto simp: frame_def config_def module_eval_def split: option.splits result.splits tensor.splits)

lemma module_eval_values [frame_intros]: "frame param_values (module_eval i)"
  by (auto simp: frame_def param_values_def module_eval_def split: option.splits result.splits tensor.splits)

lemma module_eval_quiet [quiet_intros]: "quiet (module_eval i)"
  by (auto simp: quiet_def module_eval_def split: option.splits result.splits tensor.splits if_splits)

lemma module_train_config [frame_intros]: "frame config (module_train i)"
  by (auto simp: frame_def config_def module_train_def split: option.splits result.splits tensor.splits)

lemma module_train_values [frame_intros]: "frame param_values (module_train i)"
  by (auto simp: frame_def param_values_def module_train_def split: option.splits result.splits tensor.splits)

lemma module_train_quiet [quiet_intros]: "quiet (module_train i)"
  by (auto simp: quiet_def module_train_def split: option.splits result.splits tensor.splits if_splits)

lemma py_div_config [frame_intros]: "frame config (py_div x n)"
  by (auto simp: frame_def config_def py_div_def raise_def ret_def split: option.splits result.splits tensor.splits)

lemma py_div_values [frame_intros]: "frame param_values (py_div x n)"
  by (auto simp: frame_def param_values_def py_div_def raise_def ret_def split: option.splits result.splits tensor.splits)

lemma py_div_quiet [quiet_intros]: "quiet (py_div x n)"
  by (auto simp: quiet_def py_div_def raise_def ret_def split: option.splits result.splits tensor.splits if_splits)

lemma manual_seed_config [frame_intros]: "frame config (manual_seed n)"
  by (auto simp: frame_def config_def manual_seed_def split: option.splits result.splits tensor.splits)

lemma manual_seed_values [frame_intros]: "frame param_values (manual_seed n)"
  by (auto simp: frame_def param_values_def manual_seed_def split: option.splits result.splits tensor.splits)

lemma manual_seed_quiet [quiet_intros]: "quiet (manual_seed n)"
  by (auto simp: quiet_def manual_seed_def split: option.splits result.splits tensor.splits if_splits)


subsection \<open>Structure\<close>

lemma frame_collab [frame_intros]:
  "(\<And>s t. F (s\<lparr>trace := t\<rparr>) = F s) \<Longrightarrow> frame F m \<Longrightarrow> frame F (collab fw st m)"
  by (auto simp: frame_def collab_def split: option.splits)

lemma config_trace [simp]: "config (s\<lparr>trace := t\<rparr>) = config s"
  by (simp add: config_def)

lemma param_values_trace [simp]: "param_values (s\<lparr>trace := t\<rparr>) = param_values s"
  by (simp add: param_values_def)

lemma quiet_bind [quiet_intros]:
  "quiet m \<Longrightarrow> (\<And>a. quiet (f a)) \<Longrightarrow> quiet (bind m f)"
  unfolding quiet_def bind_Ok by (metis)

lemma quiet_collab [quiet_intros]: "quiet m \<Longrightarrow> quiet (collab fw st m)"
  by (auto simp: quiet_def collab_Ok)

lemma quiet_ret [quiet_intros]: "quiet (ret a)"
  by (simp add: quiet_def ret_def)

lemma quiet_raise [quiet_intros]: "quiet (raise e)"
  by (simp add: quiet_def raise_def)

lemma quiet_lift [quiet_intros]: "quiet (lift r)"
  by (simp add: quiet_def lift_def)

lemma quiet_if [quiet_intros]: "quiet a \<Longrightarrow> quiet b \<Longrightarrow> quiet (if c then a else b)"
  by simp

lemma quietD: "quiet m \<Longrightarrow> m s = (Ok a, s') \<Longrightarrow> trace s' = trace s"
  by (auto simp: quiet_def)

lemma fail_stop_bind [fail_stop_intros]:
  assumes "fail_stop m" "\<And>a. fail_stop (f a)"
  shows "fail_stop (bind m f)"
  unfolding fail_stop_def
proof (intro allI impI)
  fix s :: state
  assume s: "failures (trace s) = []"
  show "case bind m f s of
          (Ok a, s') \<Rightarrow> failures (trace s') = []
        | (Raise e, s') \<Rightarrow> failures (trace s') = [] \<or>
            (\<exists>st t. trace s' = t @ [Failed st e] \<and> failures t = [])"
  proof (cases "m s")
    case (Pair r s1)
    show ?thesis
    proof (cases r)
      case (Ok a)
      with Pair assms(1) s have "failures (trace s1) = []"
        by (auto simp: fail_stop_def dest!: spec [of _ s])
      with assms(2) [of a] have
        "case f a s1 of
          (Ok a, s') \<Rightarrow> failures (trace s') = []
        | (Raise e, s') \<Rightarrow> failures (trace s') = [] \<or>
            (\<exists>st t. trace s' = t @ [Failed st e] \<and> failures t = [])"
        by (simp add: fail_stop_def)
      with Pair Ok show ?thesis by (simp add: bind_unfold)
    next
      case (Raise e)
      with Pair assms(1) s show ?thesis
        by (auto simp: fail_stop_def bind_unfold dest!: spec [of _ s])
    qed
  qed
qed

lemma failures_append [simp]: "failures (xs @ ys) = failures xs @ failures ys"
  by (simp add: failures_def)

lemma failures_Failed [simp]: "failures [Failed st e] = [(st, e)]"
  by (simp add: failures_def)

lemma fail_stop_plain:
  "(\<And>s. failures (trace (snd (m s))) = failures (trace s)) \<Longrightarrow> fail_stop m"
  unfolding fail_stop_def
proof (intro allI impI)
  fix s :: state
  assume a: "\<And>s. failures (trace (snd (m s))) = failures (trace s)"
    and s: "failures (trace s) = []"
  from a [of s] s have "failures (trace (snd (m s))) = []" by simp
  then show "case m s of
          (Ok a, s') \<Rightarrow> failures (trace s') = []
        | (Raise e, s') \<Rightarrow> failures (trace s') = [] \<or>
            (\<exists>st t. trace s' = t @ [Failed st e] \<and> failures t = [])"
    by (cases "m s") (auto split: result.splits)
qed

lemma fail_stop_collab [fail_stop_intros]:
  "fail_stop m \<Longrightarrow> fail_stop (collab fw st m)"
  by (auto simp: fail_stop_def collab_def split: option.splits)

lemma fail_stop_ret [fail_stop_intros]: "fail_stop (ret a)"
  by (rule fail_stop_plain) (simp add: ret_def)

lemma fail_stop_raise [fail_stop_intros]: "fail_stop (raise e)"
  by (rule fail_stop_plain) (simp add: raise_def)

lemma fail_stop_lift [fail_stop_intros]: "fail_stop (lift r)"
  by (rule fail_stop_plain) (simp add: lift_def)

lemma fail_stop_if [fail_stop_intros]:
  "fail_stop a \<Longrightarrow> fail_stop b \<Longrightarrow> fail_stop (if c then a else b)"
  by simp

lemma fail_stop_for_each [fail_stop_intros]:
  "(\<And>x acc. fail_stop (body x acc)) \<Longrightarrow> fail_stop (for_each body xs acc)"
  by (induction xs arbitrary: acc) (simp_all add: fail_stop_ret fail_stop_bind)

subsection \<open>Fail-stop primitives\<close>

lemma fail_stop_emit [fail_stop_intros]: "failures [ev] = [] \<Longrightarrow> fail_stop (emit ev)"
  by (rule fail_stop_plain) (simp add: emit_def)

lemma failures_simps [simp]:
  "failures [] = []"
  "failures [Printed x] = []"
  "failures [PrintedLoss a b] = []"
  "failures [SavedImage p] = []"
  "failures [Shown pl] = []"
  "failures [OptimizerStep i] = []"
  "failures [BatchLosses dr df g] = []"
  by (simp_all add: failures_def)

lemma embedding_fail_stop [fail_stop_intros]: "fail_stop (embedding a labels)"
  by (rule fail_stop_plain) (simp add: embedding_def split: tensor.splits)

lemma alloc_fail_stop [fail_stop_intros]: "fail_stop (alloc t)"
  by (rule fail_stop_plain) (simp add: alloc_def split: tensor.splits)

lemma new_module_fail_stop [fail_stop_intros]: "fail_stop (new_module)"
  by (rule fail_stop_plain) (simp add: new_module_def split: tensor.splits)

lemma Adam_fail_stop [fail_stop_intros]: "fail_stop (Adam ps rate)"
  by (rule fail_stop_plain) (simp add: Adam_def split: tensor.splits)

lemma zero_grad_fail_stop [fail_stop_intros]: "fail_stop (zero_grad opt)"
  by (rule fail_stop_plain) (simp add: zero_grad_def split: tensor.splits)

lemma module_eval_fail_stop [fail_stop_intros]: "fail_stop (module_eval i)"
  by (rule fail_stop_plain) (simp add: module_eval_def split: tensor.splits)

lemma module_train_fail_stop [fail_stop_intros]: "fail_stop (module_train i)"
  by (rule fail_stop_plain) (simp add: module_train_def split: tensor.splits)

lemma py_div_fail_stop [fail_stop_intros]: "fail_stop (py_div x n)"
  by (rule fail_stop_plain) (simp add: py_div_def raise_def ret_def split: tensor.splits)

lemma manual_seed_fail_stop [fail_stop_intros]: "fail_stop (manual_seed n)"
  by (rule fail_stop_plain) (simp add: manual_seed_def split: tensor.splits)

lemma define_globals_fail_stop [fail_stop_intros]: "fail_stop (define_globals fw)"
  by (rule fail_stop_plain) (simp add: define_globals_def split: tensor.splits)

lemma np_random_normal_fail_stop [fail_stop_intros]: "fail_stop (np_random_normal fw r c)"
  unfolding np_random_normal_def
  by (rule fail_stop_collab, rule fail_stop_plain) (simp split: option.splits)

lemma np_random_randint_fail_stop [fail_stop_intros]: "fail_stop (np_random_randint fw lo hi n)"
  unfolding np_random_randint_def
  by (rule fail_stop_collab, rule fail_stop_plain) (simp split: option.splits)

lemma backward_fail_stop [fail_stop_intros]: "fail_stop (backward fw loss)"
  unfolding backward_def
  by (rule fail_stop_collab, rule fail_stop_plain) (simp add: accumulate_grads_def)

lemma step_fail_stop [fail_stop_intros]: "fail_stop (step fw opt)"
  unfolding step_def
  by (rule fail_stop_collab, rule fail_stop_plain) (simp add: adam_step_def)

lemma iterate_fail_stop [fail_stop_intros]: "fail_stop (iterate fw dl)"
  unfolding iterate_def
  by (rule fail_stop_collab, rule fail_stop_plain) (simp split: option.splits)

lemma makedirs_fail_stop [fail_stop_intros]: "fail_stop (makedirs fw name)"
  unfolding makedirs_def
  by (rule fail_stop_collab, rule fail_stop_plain) (simp split: option.splits)

lemma save_image_fail_stop [fail_stop_intros]: "fail_stop (save_image fw img path nrow)"
  unfolding save_image_def
  by (rule fail_stop_collab, rule fail_stop_plain) (simp split: option.splits)

lemma plt_imread_fail_stop [fail_stop_intros]: "fail_stop (plt_imread fw path)"
  unfolding plt_imread_def
  by (rule fail_stop_collab, rule fail_stop_plain) (simp split: option.splits)

lemma to_device_fail_stop [fail_stop_intros]: "fail_stop (to_device fw dev x)"
  unfolding to_device_def by (intro fail_stop_intros; simp)

lemma apply_loss_fail_stop [fail_stop_intros]: "fail_stop (apply_loss fw adv_loss validity target)"
  unfolding apply_loss_def by (intro fail_stop_intros; simp)

lemma init_figure_fail_stop [fail_stop_intros]: "fail_stop (init_figure fw)"
  unfolding init_figure_def by (intro fail_stop_intros; simp)

lemma plot_current_results_fail_stop [fail_stop_intros]: "fail_stop (plot_current_results fw im ml fa)"
  unfolding plot_current_results_def by (intro fail_stop_intros; simp)

lemma plot_loss_fail_stop [fail_stop_intros]: "fail_stop (plot_loss fw ml)"
  unfolding plot_loss_def by (intro fail_stop_intros; simp)


subsection \<open>Statements that read the state for an argument\<close>

lemma frame_dep: "(\<And>v. frame F (m v)) \<Longrightarrow> frame F (\<lambda>s. m (h s) s)"
  by (simp add: frame_def)

lemma quiet_dep: "(\<And>v. quiet (m v)) \<Longrightarrow> quiet (\<lambda>s. m (h s) s)"
  by (simp add: quiet_def)

lemma fail_stop_dep: "(\<And>v. fail_stop (m v)) \<Longrightarrow> fail_stop (\<lambda>s. m (h s) s)"
  by (simp add: fail_stop_def)

subsection \<open>The networks\<close>

lemma layer_forward_config: "frame config (layer_forward fw tr l x)"
  by (cases l) (auto simp: frame_def config_def split: tensor.splits)

lemma layer_forward_values: "frame param_values (layer_forward fw tr l x)"
  by (cases l) (auto simp: frame_def param_values_def split: tensor.splits)

lemma layer_forward_quiet: "quiet (layer_forward fw tr l x)"
  by (cases l) (auto simp: quiet_def split: tensor.splits if_splits)

lemma layer_forward_fail_stop: "fail_stop (layer_forward fw tr l x)"
  by (rule fail_stop_plain, cases l) (auto split: tensor.splits)

lemma sequential_config: "frame config (sequential fw tr ls x)"
  by (induction ls arbitrary: x) (simp_all add: frame_ret frame_bind layer_forward_config)

lemma sequential_values: "frame param_values (sequential fw tr ls x)"
  by (induction ls arbitrary: x) (simp_all add: frame_ret frame_bind layer_forward_values)

lemma sequential_quiet: "quiet (sequential fw tr ls x)"
  by (induction ls arbitrary: x) (simp_all add: quiet_ret quiet_bind layer_forward_quiet)

lemma sequential_fail_stop: "fail_stop (sequential fw tr ls x)"
  by (induction ls arbitrary: x) (simp_all add: fail_stop_ret fail_stop_bind layer_forward_fail_stop)

lemma sequential_dep_config [frame_intros]:
  "frame config (\<lambda>s. sequential fw (training s i) ls x s)"
  by (rule frame_dep [where m = "\<lambda>tr. sequential fw tr ls x"]) (rule sequential_config)

lemma sequential_dep_values [frame_intros]:
  "frame param_values (\<lambda>s. sequential fw (training s i) ls x s)"
  by (rule frame_dep [where m = "\<lambda>tr. sequential fw tr ls x"]) (rule sequential_values)

lemma sequential_dep_quiet [quiet_intros]:
  "quiet (\<lambda>s. sequential fw (training s i) ls x s)"
  by (rule quiet_dep [where m = "\<lambda>tr. sequential fw tr ls x"]) (rule sequential_quiet)

lemma sequential_dep_fail_stop [fail_stop_intros]:
  "fail_stop (\<lambda>s. sequential fw (training s i) ls x s)"
  by (rule fail_stop_dep [where m = "\<lambda>tr. sequential fw tr ls x"]) (rule sequential_fail_stop)


subsection \<open>The functions of the notebook\<close>

lemma Generator_forward_config [frame_intros]: "frame config (Generator_forward fw g noise labels)"
  unfolding Generator_forward_def by (intro frame_intros; simp)

lemma Generator_forward_values [frame_intros]: "frame param_values (Generator_forward fw g noise labels)"
  unfolding Generator_forward_def by (intro frame_intros; simp)

lemma Generator_forward_quiet [quiet_intros]: "quiet (Generator_forward fw g noise labels)"
  unfolding Generator_forward_def by (intro quiet_intros)

lemma Generator_forward_fail_stop [fail_stop_intros]: "fail_stop (Generator_forward fw g noise labels)"
  unfolding Generator_forward_def by (intro fail_stop_intros; simp)

lemma Discriminator_forward_config [frame_intros]: "frame config (Discriminator_forward fw d img labels)"
  unfolding Discriminator_forward_def by (intro frame_intros; simp)

lemma Discriminator_forward_values [frame_intros]: "frame param_values (Discriminator_forward fw d img labels)"
  unfolding Discriminator_forward_def by (intro frame_intros; simp)

lemma Discriminator_forward_quiet [quiet_intros]: "quiet (Discriminator_forward fw d img labels)"
  unfolding Discriminator_forward_def by (intro quiet_intros)

lemma Discriminator_forward_fail_stop [fail_stop_intros]: "fail_stop (Discriminator_forward fw d img labels)"
  unfolding Discriminator_forward_def by (intro fail_stop_intros; simp)

lemma discriminator_losses_config [frame_intros]: "frame config (discriminator_losses fw g d optimizer_D adv_loss ld nc dev x y valid fake)"
  unfolding discriminator_losses_def by (intro frame_intros; simp)

lemma discriminator_losses_values [frame_intros]: "frame param_values (discriminator_losses fw g d optimizer_D adv_loss ld nc dev x y valid fake)"
  unfolding discriminator_losses_def by (intro frame_intros; simp)

lemma discriminator_losses_quiet [quiet_intros]: "quiet (discriminator_losses fw g d optimizer_D adv_loss ld nc dev x y valid fake)"
  unfolding discriminator_losses_def by (intro quiet_intros)

lemma discriminator_losses_fail_stop [fail_stop_intros]: "fail_stop (discriminator_losses fw g d optimizer_D adv_loss ld nc dev x y valid fake)"
  unfolding discriminator_losses_def by (intro fail_stop_intros; simp)

lemma generator_loss_config [frame_intros]: "frame config (generator_loss fw g d optimizer_G adv_loss ld nc dev bsize valid)"
  unfolding generator_loss_def by (intro frame_intros; simp)

lemma generator_loss_values [frame_intros]: "frame param_values (generator_loss fw g d optimizer_G adv_loss ld nc dev bsize valid)"
  unfolding generator_loss_def by (intro frame_intros; simp)

lemma generator_loss_quiet [quiet_intros]: "quiet (generator_loss fw g d optimizer_G adv_loss ld nc dev bsize valid)"
  unfolding generator_loss_def by (intro quiet_intros)

lemma generator_loss_fail_stop [fail_stop_intros]: "fail_stop (generator_loss fw g d optimizer_G adv_loss ld nc dev bsize valid)"
  unfolding generator_loss_def by (intro fail_stop_intros; simp)

lemma save_reconstruction_config [frame_intros]: "frame config (save_reconstruction fw g ld n e dev)"
  unfolding save_reconstruction_def by (intro frame_intros; simp)

lemma save_reconstruction_values [frame_intros]: "frame param_values (save_reconstruction fw g ld n e dev)"
  unfolding save_reconstruction_def by (intro frame_intros; simp)

lemma save_reconstruction_fail_stop [fail_stop_intros]: "fail_stop (save_reconstruction fw g ld n e dev)"
  unfolding save_reconstruction_def by (intro fail_stop_intros; simp)

lemma train_batch_config [frame_intros]: "frame config (train_batch fw g og d od adv_loss ld nc dev batch running)"
  unfolding train_batch_def by (intro frame_intros; simp)

lemma train_batch_fail_stop [fail_stop_intros]: "fail_stop (train_batch fw g og d od adv_loss ld nc dev batch running)"
  unfolding train_batch_def by (intro fail_stop_intros; simp)

lemma run_epoch_config [frame_intros]: "frame config (run_epoch fw n dl g og d od adv_loss ld nc dev e ml)"
  unfolding run_epoch_def Let_def by (intro frame_intros; simp)

lemma run_epoch_fail_stop [fail_stop_intros]: "fail_stop (run_epoch fw n dl g og d od adv_loss ld nc dev e ml)"
  unfolding run_epoch_def Let_def by (intro fail_stop_intros; simp)

lemma train_model_config [frame_intros]: "frame config (train_model fw n dl g og d od adv_loss ld nc dev)"
  unfolding train_model_def by (intro frame_intros; simp)

lemma train_model_fail_stop [fail_stop_intros]: "fail_stop (train_model fw n dl g og d od adv_loss ld nc dev)"
  unfolding train_model_def by (intro fail_stop_intros; simp)


subsection \<open>Constructors and data loading\<close>

lemma layer_size_config [frame_intros]: "frame config (layer_size n)"
  by (simp add: layer_size_def frame_raise frame_ret)

lemma layer_size_fail_stop [fail_stop_intros]: "fail_stop (layer_size n)"
  by (simp add: layer_size_def fail_stop_raise fail_stop_ret)

lemma new_mat_config [frame_intros]: "frame config (new_mat fw r c)"
  by (simp add: frame_def config_def new_mat_def alloc_def)

lemma new_vec_config [frame_intros]: "frame config (new_vec fw n)"
  by (simp add: frame_def config_def new_vec_def alloc_def)

lemma new_mat_fail_stop [fail_stop_intros]: "fail_stop (new_mat fw r c)"
  by (rule fail_stop_plain) (simp add: new_mat_def alloc_def)

lemma new_vec_fail_stop [fail_stop_intros]: "fail_stop (new_vec fw n)"
  by (rule fail_stop_plain) (simp add: new_vec_def alloc_def)

lemma nn_Embedding_config [frame_intros]: "frame config (nn_Embedding fw a b)"
  unfolding nn_Embedding_def by (intro frame_intros; simp)

lemma nn_Embedding_fail_stop [fail_stop_intros]: "fail_stop (nn_Embedding fw a b)"
  unfolding nn_Embedding_def by (intro fail_stop_intros; simp)

lemma nn_Linear_config [frame_intros]: "frame config (nn_Linear fw a b)"
  unfolding nn_Linear_def by (intro frame_intros; simp)

lemma nn_Linear_fail_stop [fail_stop_intros]: "fail_stop (nn_Linear fw a b)"
  unfolding nn_Linear_def by (intro fail_stop_intros; simp)

lemma block_config [frame_intros]: "frame config (block fw a b)"
  unfolding block_def by (intro frame_intros; simp)

lemma block_fail_stop [fail_stop_intros]: "fail_stop (block fw a b)"
  unfolding block_def by (intro fail_stop_intros; simp)

lemma Generator_init_config [frame_intros]: "frame config (Generator_init fw nc shp ld)"
  unfolding Generator_init_def by (intro frame_intros; simp)

lemma Generator_init_fail_stop [fail_stop_intros]: "fail_stop (Generator_init fw nc shp ld)"
  unfolding Generator_init_def by (intro fail_stop_intros; simp)

lemma Discriminator_init_config [frame_intros]: "frame config (Discriminator_init fw nc shp)"
  unfolding Discriminator_init_def by (intro frame_intros; simp)

lemma Discriminator_init_fail_stop [fail_stop_intros]: "fail_stop (Discriminator_init fw nc shp)"
  unfolding Discriminator_init_def by (intro fail_stop_intros; simp)

lemma get_generator_model_config [frame_intros]: "frame config (get_generator_model fw nc shp ld rate dev)"
  unfolding get_generator_model_def by (intro frame_intros; simp)

lemma get_generator_model_fail_stop [fail_stop_intros]: "fail_stop (get_generator_model fw nc shp ld rate dev)"
  unfolding get_generator_model_def by (intro fail_stop_intros; simp)

lemma get_discriminator_model_config [frame_intros]: "frame config (get_discriminator_model fw nc shp rate dev)"
  unfolding get_discriminator_model_def by (intro frame_intros; simp)

lemma get_discriminator_model_fail_stop [fail_stop_intros]: "fail_stop (get_discriminator_model fw nc shp rate dev)"
  unfolding get_discriminator_model_def by (intro fail_stop_intros; simp)

lemma get_dataloader_config [frame_intros]: "frame config (get_dataloader fw bsize shp)"
  unfolding get_dataloader_def Let_def by (intro frame_intros; simp)

lemma get_dataloader_fail_stop [fail_stop_intros]: "fail_stop (get_dataloader fw bsize shp)"
  unfolding get_dataloader_def Let_def by (intro fail_stop_intros; simp)


lemma after_globals_config: "frame config (after_globals fw)"
  unfolding after_globals_def
  by (intro frame_bind)
     (simp_all add: frame_def frameD [OF get_dataloader_config]
        frameD [OF get_generator_model_config] frameD [OF get_discriminator_model_config]
        frameD [OF train_model_config])

lemma after_globals_fail_stop: "fail_stop (after_globals fw)"
  unfolding after_globals_def
  apply (intro fail_stop_bind)
      apply (rule fail_stop_dep [where m = "\<lambda>v. get_dataloader fw (fst v) (snd v)"
            and h = "\<lambda>s. (batch_size (TRAIN_PARAMETERS s), img_shape (TRAIN_PARAMETERS s))",
            simplified])
      apply (rule get_dataloader_fail_stop)
     apply (simp add: fail_stop_def)
     apply (intro allI impI)
     apply (rule get_generator_model_fail_stop [unfolded fail_stop_def, rule_format])
     apply assumption
    apply (simp add: fail_stop_def)
    apply (intro allI impI)
    apply (rule get_discriminator_model_fail_stop [unfolded fail_stop_def, rule_format])
    apply assumption
   apply (simp add: fail_stop_def)
   apply (intro allI impI)
   apply (rule train_model_fail_stop [unfolded fail_stop_def, rule_format])
   apply assumption
  apply (simp add: fail_stop_def)
  apply (intro allI impI)
  apply (rule train_model_fail_stop [unfolded fail_stop_def, rule_format])
  apply assumption
  done

lemma notebook_config:
  "config (snd (notebook fw s)) =
     (\<lparr>batch_size = 128, num_classes = 10, img_shape = [1, 28, 28], epochs = 200,
       learning_rate = 0.0002\<rparr>, \<lparr>generator_latent_dim = 100\<rparr>)"
proof -
  define s2 where "s2 = snd (define_globals fw (snd (manual_seed 0 s)))"
  have "notebook fw s = after_globals fw s2"
    by (simp add: notebook_def bind_unfold manual_seed_def define_globals_def s2_def)
  then have "config (snd (notebook fw s)) = config s2"
    by (simp add: frameD [OF after_globals_config])
  then show ?thesis
    by (simp add: s2_def config_def define_globals_def manual_seed_def)
qed

lemma notebook_fail_stop: "fail_stop (notebook fw)"
  unfolding notebook_def
  by (intro fail_stop_bind manual_seed_fail_stop define_globals_fail_stop
        after_globals_fail_stop)


section \<open>The saved grid (claim C8)\<close>

text \<open>
  Claim C8. Whenever \<open>save_reconstruction generator latent_dim n_row epoch_n device\<close>
  returns, the image it returns is the generator's output on \<open>n_row\<^sup>2\<close> noise vectors
  of dimension \<open>latent_dim\<close> paired with the labels \<open>grid_labels n_row\<close>, saved with
  \<open>n_row\<close> images per row. That label sequence has \<open>n_row\<^sup>2\<close> entries, its \<open>i\<close>-th entry
  is \<open>i mod n_row\<close>, every label below \<open>n_row\<close> occurs exactly \<open>n_row\<close> times, and in
  row \<open>r\<close> of the grid the image at column \<open>c\<close> has label \<open>c\<close>.
\<close>

theorem save_reconstruction_grid:
  assumes "fst (save_reconstruction fw g ld n e dev s) = Ok img"
  shows "(\<exists>z x gr s1 s2. length z = n ^ 2 \<and> list_all (\<lambda>row. length row = ld) z \<and>
            Generator_forward fw g z (grid_labels n) s1 = (Ok (x, gr), s2) \<and> img = (x, n)) \<and>
         length (grid_labels n) = n ^ 2 \<and>
         (\<forall>i < n ^ 2. grid_labels n ! i = int (i mod n)) \<and>
         (\<forall>c < n. count_list (grid_labels n) (int c) = n) \<and>
         (\<forall>r < n. \<forall>c < n. grid_labels n ! (r * n + c) = int c)"
proof -
  from assms obtain s' where "save_reconstruction fw g ld n e dev s = (Ok img, s')"
    by (auto dest: fst_Ok_ex)
  then show ?thesis
    using save_reconstruction_Ok length_grid_labels nth_grid_labels count_grid_labels
      grid_labels_position by blast
qed

theorem save_reconstruction_grid_witness:
  "fst (save_reconstruction demo_fw demo_generator 1 2 0 CPU demo_state) =
     Ok (\<lparr>sample_shape = [1], samples = [[Fin 0], [Fin 0], [Fin 0], [Fin 0]]\<rparr>, 2) \<and>
   length (grid_labels 2) = 4 \<and> count_list (grid_labels 2) 1 = 2 \<and>
   grid_labels 2 ! 3 = 1"
proof -
  note T = save_reconstruction_grid [OF demo_save_reconstruction]
  from T [THEN conjunct2, THEN conjunct1] have a: "length (grid_labels 2) = 4" by simp
  from T [THEN conjunct2, THEN conjunct2, THEN conjunct2, THEN conjunct1, rule_format, of 1]
  have "count_list (grid_labels 2) (int 1) = 2" by simp
  then have b: "count_list (grid_labels 2) 1 = 2" by simp
  from T [THEN conjunct2, THEN conjunct2, THEN conjunct2, THEN conjunct2, rule_format, of 1 1]
  have "grid_labels 2 ! (1 * 2 + 1) = int 1" by simp
  then have c: "grid_labels 2 ! 3 = 1" by simp
  from demo_save_reconstruction a b c show ?thesis by simp
qed

section \<open>The generator's output (claim C10)\<close>

text \<open>
  Claim C10, as stated, says that every entry of the tensor \<open>Generator.forward\<close>
  returns lies in \<open>[-1, 1]\<close>. In single precision this fails: on the finite noise
  value \<open>3e38\<close> the first layer of \<open>nan_generator\<close> overflows to infinity, the second
  multiplies infinity by zero, and the output entry is NaN.
\<close>

theorem Generator_forward_range_counterexample:
  "generator_wf nan_state nan_generator 1 1 \<and>
   fault demo_fw AtForward nan_state = None \<and>
   3 * 10 ^ 38 \<le> FLT_MAX \<and>
   length [[Fin (3 * 10 ^ 38)]] = length [0 :: int] \<and>
   list_all (\<lambda>row. length row = 1) [[Fin (3 * 10 ^ 38)]] \<and>
   list_all (\<lambda>l. 0 \<le> l \<and> l < int 1) [0] \<and>
   Generator_forward demo_fw nan_generator [[Fin (3 * 10 ^ 38)]] [0] nan_state =
     (Ok (\<lparr>sample_shape = [1], samples = [[NaN]]\<rparr>, Node [0, 1, 2, 3, 4, 5, 6, 7, 8] []),
      nan_state) \<and>
   \<not> list_all (list_all in_unit_interval) [[NaN]]"
  using nan_generator_wf nan_forward
  by (simp add: demo_fw_def FLT_MAX_def)

text \<open>
  Claim C10, amended. For a generator whose parameters have the shapes \<open>Generator_init\<close>
  gives them (lemma \<open>Generator_init_wf\<close>), a batch of \<open>B\<close> noise vectors of dimension
  \<open>latent_dim\<close> and \<open>B\<close> labels in \<open>[0, n_classes)\<close>, \<open>Generator.forward\<close> returns
  (when the framework call itself does not fail) a tensor of shape \<open>B\<close> followed by
  \<open>img_shape\<close>, with \<open>prod img_shape\<close> entries per sample, and every entry is NaN or
  lies in \<open>[-1, 1]\<close>: the last layer is \<open>Tanh\<close> and the result is a view of its
  output.
\<close>

theorem Generator_forward_shape_entries:
  assumes wf: "generator_wf s g n_classes latent_dim"
    and ok: "fault fw AtForward s = None"
    and len: "length noise = length labels"
    and noise: "list_all (\<lambda>row. length row = latent_dim) noise"
    and labels: "list_all (\<lambda>l. 0 \<le> l \<and> l < int n_classes) labels"
  shows "\<exists>x gr s'. Generator_forward fw g noise labels s = (Ok (x, gr), s') \<and>
           shape_of x = length noise # gen_img_shape g \<and>
           list_all (\<lambda>row. length row = prod_list (gen_img_shape g)) (samples x) \<and>
           list_all (list_all (\<lambda>v. v = NaN \<or> in_unit_interval v)) (samples x)"
proof -
  from wf have tab: "embedding_table n_classes (pval (heap s (label_emb g)))"
    and ne: "gen_model g \<noteq> []" and tanh: "last (gen_model g) = Tanh"
    and fit: "layers_fit s (latent_dim + n_classes) (gen_model g) = Some (prod_list (gen_img_shape g))"
    by (auto simp: generator_wf_def)
  from embedding_fit [OF tab labels] obtain emb where
    emb: "embedding (label_emb g) labels s = (Ok emb, s)" "length emb = length labels"
      "list_all (\<lambda>r. length r = n_classes) emb" by (elim exE conjE)
  define gen_input where "gen_input = map2 (@) emb noise"
  from emb(2) len have cat: "cat_last emb noise = Ok gen_input"
    by (simp add: cat_last_def gen_input_def)
  have "length (a @ b) = latent_dim + n_classes" if "(a, b) \<in> set (zip emb noise)" for a b
  proof -
    from that have "a \<in> set emb" "b \<in> set noise"
      by (auto dest: set_zip_leftD set_zip_rightD)
    with emb(3) noise show ?thesis by (simp add: list_all_iff)
  qed
  with emb(2) len have inp: "length gen_input = length noise"
      "list_all (\<lambda>r. length r = latent_dim + n_classes) gen_input"
    by (auto simp: gen_input_def list_all_iff)
  from sequential_fit [OF fit inp(2), of fw "training s (gen_id g)"] obtain y s' where
    y: "sequential fw (training s (gen_id g)) (gen_model g) gen_input s = (Ok y, s')"
      "length y = length gen_input" "list_all (\<lambda>r. length r = prod_list (gen_img_shape g)) y"
    by (elim exE conjE)
  from sequential_Tanh_last [OF ne tanh y(1)]
  have rng: "list_all (list_all (\<lambda>v. v = NaN \<or> in_unit_interval v)) y" .
  from y(3) have view: "view_as (gen_img_shape g) y = Ok \<lparr>sample_shape = gen_img_shape g, samples = y\<rparr>"
    by (simp add: view_as_def)
  have "Generator_forward fw g noise labels s =
      (Ok (\<lparr>sample_shape = gen_img_shape g, samples = y\<rparr>, Node (gen_parameters g) []), s')"
    using ok emb(1) cat y(1) view
    by (simp add: Generator_forward_def collab_def bind_unfold lift_def ret_def)
  with rng y(2,3) inp(1) show ?thesis by (simp add: shape_of_def)
qed

theorem Generator_forward_shape_entries_witness:
  "generator_wf (snd (Generator_init demo_fw 10 [1, 28, 28] 100 demo_state))
     \<lparr>gen_id = 4, label_emb = 8, gen_img_shape = [1, 28, 28],
      gen_model = [Linear 9 10, LeakyReLU 0.2, Linear 11 12, LeakyReLU 0.2,
                   Linear 13 14, LeakyReLU 0.2, Linear 15 16, Tanh]\<rparr> 10 100 \<and>
   fault demo_fw AtForward (snd (Generator_init demo_fw 10 [1, 28, 28] 100 demo_state)) = None \<and>
   length [replicate 100 (Fin 1), replicate 100 (Fin 2)] = length [3, 7 :: int] \<and>
   list_all (\<lambda>row. length row = 100) [replicate 100 (Fin 1), replicate 100 (Fin 2)] \<and>
   list_all (\<lambda>l. 0 \<le> l \<and> l < int 10) [3, 7] \<and>
   (\<exists>x gr s'.
      Generator_forward demo_fw
        \<lparr>gen_id = 4, label_emb = 8, gen_img_shape = [1, 28, 28],
         gen_model = [Linear 9 10, LeakyReLU 0.2, Linear 11 12, LeakyReLU 0.2,
                      Linear 13 14, LeakyReLU 0.2, Linear 15 16, Tanh]\<rparr>
        [replicate 100 (Fin 1), replicate 100 (Fin 2)] [3, 7]
        (snd (Generator_init demo_fw 10 [1, 28, 28] 100 demo_state)) = (Ok (x, gr), s') \<and>
      shape_of x = [2, 1, 28, 28] \<and>
      list_all (\<lambda>row. length row = 784) (samples x) \<and>
      list_all (list_all (\<lambda>v. v = NaN \<or> in_unit_interval v)) (samples x))"
proof -
  let ?g = "\<lparr>gen_id = 4, label_emb = 8, gen_img_shape = [1, 28, 28],
      gen_model = [Linear 9 10, LeakyReLU 0.2, Linear 11 12, LeakyReLU 0.2,
                   Linear 13 14, LeakyReLU 0.2, Linear 15 16, Tanh]\<rparr>"
  let ?s = "snd (Generator_init demo_fw 10 [1, 28, 28] 100 demo_state)"
  let ?z = "[replicate 100 (Fin 1), replicate 100 (Fin 2)]"
  have init: "Generator_init demo_fw 10 [1, 28, 28] 100 demo_state = (Ok ?g, ?s)"
    using notebook_generator by (cases "Generator_init demo_fw 10 [1, 28, 28] 100 demo_state") simp
  have small: "prod_list [1, 28, 28 :: nat] < 2 ^ 63" by simp
  from Generator_init_wf [OF init small] have wf: "generator_wf ?s ?g 10 100" by simp
  have f: "fault demo_fw AtForward ?s = None" by (simp add: demo_fw_def)
  have l: "length ?z = length [3, 7 :: int]" by simp
  have n: "list_all (\<lambda>row. length row = 100) ?z" by simp
  have r: "list_all (\<lambda>l. 0 \<le> l \<and> l < int 10) [3, 7]" by simp
  have sh: "length ?z # gen_img_shape ?g = [2, 1, 28, 28]" by simp
  have pr: "prod_list (gen_img_shape ?g) = 784" by simp
  from Generator_forward_shape_entries [OF wf f l n r]
  have "\<exists>x gr s'.
      Generator_forward demo_fw ?g ?z [3, 7] ?s = (Ok (x, gr), s') \<and>
      shape_of x = [2, 1, 28, 28] \<and>
      list_all (\<lambda>row. length row = 784) (samples x) \<and>
      list_all (list_all (\<lambda>v. v = NaN \<or> in_unit_interval v)) (samples x)"
    unfolding sh pr .
  with wf f l n r show ?thesis by (intro conjI)
qed

section \<open>Runs of the small instance\<close>

lemmas loop_defs = train_model_def run_epoch_def train_batch_def discriminator_losses_def
  generator_loss_def save_reconstruction_def MSELoss_def same_shape_def mean_def
  chop.simps upt_rec show_nat.simps digit_char_def

text \<open>One epoch over the two batches of the small instance returns.\<close>

lemma demo_run_ok:
  "fst (train_model demo_fw 1 demo_dataloader demo_generator demo_optimizer_G
          demo_discriminator demo_optimizer_D MSELoss 1 2 CPU demo_state) = Ok ()"
  by (simp add: loop_defs demo_defs run_defs)

text \<open>
  With a file system that refuses every call the same run stops at
  \<^verbatim>\<open>os.makedirs\<close>, after both batches of the epoch.
\<close>

lemma failing_run:
  "fst (train_model failing_fw 1 demo_dataloader demo_generator demo_optimizer_G
          demo_discriminator demo_optimizer_D MSELoss 1 2 CPU demo_state)
     = Raise (External ''disk full'')"
  "failures (trace (snd (train_model failing_fw 1 demo_dataloader demo_generator
          demo_optimizer_G demo_discriminator demo_optimizer_D MSELoss 1 2 CPU demo_state)))
     = [(AtFileSystem, External ''disk full'')]"
  by (simp_all add: loop_defs demo_defs run_defs failing_fw_def failures_def)

section \<open>The configuration (claim C6)\<close>

text \<open>
  Claim C6. \<open>TRAIN_PARAMETERS\<close> and \<open>MODEL_HYPERPARAMETERS\<close> are never mutated after
  cell 5 has defined them: data loading, the two model constructors, snapshot saving,
  one batch, one epoch, a whole call of \<open>train_model\<close> and the cells after cell 5 taken
  together each end, whether they return or raise, in a state whose configuration is
  the one they started from; and the configuration the notebook ends with is the one
  cell 5 writes.
\<close>

theorem configuration_never_mutated:
  "config (snd (get_dataloader fw bsize shp s)) = config s \<and>
   config (snd (get_generator_model fw nc shp ld rate dev s)) = config s \<and>
   config (snd (get_discriminator_model fw nc shp rate dev s)) = config s \<and>
   config (snd (save_reconstruction fw g ld n e dev s)) = config s \<and>
   config (snd (train_batch fw g og d od adv_loss ld nc dev batch running s)) = config s \<and>
   config (snd (run_epoch fw n dl g og d od adv_loss ld nc dev e ml s)) = config s \<and>
   config (snd (train_model fw n dl g og d od adv_loss ld nc dev s)) = config s \<and>
   config (snd (after_globals fw s)) = config s \<and>
   config (snd (notebook fw s)) =
     (\<lparr>batch_size = 128, num_classes = 10, img_shape = [1, 28, 28], epochs = 200,
       learning_rate = 0.0002\<rparr>, \<lparr>generator_latent_dim = 100\<rparr>)"
  by (simp add: frameD [OF get_dataloader_config] frameD [OF get_generator_model_config]
        frameD [OF get_discriminator_model_config] frameD [OF save_reconstruction_config]
        frameD [OF train_batch_config] frameD [OF run_epoch_config]
        frameD [OF train_model_config] frameD [OF after_globals_config] notebook_config)

section \<open>Failures of collaborators (claim C5)\<close>

text \<open>
  Claim C5. No function of the program catches an exception. Started in a state where
  no collaborator has failed, \<open>get_dataloader\<close>, the two model constructors,
  \<open>save_reconstruction\<close>, the plotting helpers, \<open>train_model\<close> and the whole notebook
  each end in one of two ways: no collaborator has failed; or exactly one has, its
  failure is the last thing that happened, and the function raises that very
  exception. So the first failure of a collaborator ends the run: nothing is retried
  and nothing runs after it.
\<close>

theorem collaborator_failures_propagate:
  "fail_stop (get_dataloader fw bsize shp) \<and>
   fail_stop (get_generator_model fw nc shp ld rate dev) \<and>
   fail_stop (get_discriminator_model fw nc shp rate dev) \<and>
   fail_stop (save_reconstruction fw g ld n e dev) \<and>
   fail_stop (init_figure fw) \<and>
   fail_stop (plot_current_results fw im ml fa) \<and>
   fail_stop (plot_loss fw ml) \<and>
   fail_stop (train_model fw n dl g og d od adv_loss ld nc dev) \<and>
   fail_stop (notebook fw)"
  by (intro conjI get_dataloader_fail_stop get_generator_model_fail_stop
        get_discriminator_model_fail_stop save_reconstruction_fail_stop init_figure_fail_stop
        plot_current_results_fail_stop plot_loss_fail_stop train_model_fail_stop
        notebook_fail_stop)

theorem collaborator_failures_propagate_witness:
  "failures (trace demo_state) = [] \<and>
   fst (train_model failing_fw 1 demo_dataloader demo_generator demo_optimizer_G
          demo_discriminator demo_optimizer_D MSELoss 1 2 CPU demo_state)
     = Raise (External ''disk full'') \<and>
   (\<exists>st t. trace (snd (train_model failing_fw 1 demo_dataloader demo_generator
          demo_optimizer_G demo_discriminator demo_optimizer_D MSELoss 1 2 CPU demo_state))
        = t @ [Failed st (External ''disk full'')] \<and> failures t = [])"
proof -
  let ?run = "train_model failing_fw 1 demo_dataloader demo_generator demo_optimizer_G
          demo_discriminator demo_optimizer_D MSELoss 1 2 CPU"
  have start: "failures (trace demo_state) = []" by (simp add: demo_state_def failures_def)
  have fs: "fail_stop ?run"
    by (rule collaborator_failures_propagate [THEN conjunct2, THEN conjunct2, THEN conjunct2,
          THEN conjunct2, THEN conjunct2, THEN conjunct2, THEN conjunct2, THEN conjunct1])
  obtain r s' where rs: "?run demo_state = (r, s')" by (cases "?run demo_state")
  from rs failing_run have r: "r = Raise (External ''disk full'')"
    and f: "failures (trace s') \<noteq> []" by simp_all
  from fs [unfolded fail_stop_def, rule_format, OF start] rs r f
  have "\<exists>st t. trace s' = t @ [Failed st (External ''disk full'')] \<and> failures t = []"
    by simp
  with rs start failing_run(1) show ?thesis by simp
qed

section \<open>Events a statement adds\<close>

subsection \<open>Statements that add none of the kept events\<close>

lemma frame_collab_obs [frame_intros]:
  "(\<And>st e. \<not> keep (Failed st e)) \<Longrightarrow> frame (obs keep) m \<Longrightarrow> frame (obs keep) (collab fw st m)"
  by (auto simp: frame_def collab_def obs_def split: option.splits)

lemma emit_obs [frame_intros]: "\<not> keep ev \<Longrightarrow> frame (obs keep) (emit ev)"
  by (simp add: frame_def obs_def emit_def)

lemma embedding_obs [frame_intros]: "frame (obs keep) (embedding a labels)"
  by (auto simp: frame_def obs_def embedding_def split: tensor.splits)

lemma zero_grad_obs [frame_intros]: "frame (obs keep) (zero_grad opt)"
  by (auto simp: frame_def obs_def zero_grad_def split: tensor.splits)

lemma module_eval_obs [frame_intros]: "frame (obs keep) (module_eval i)"
  by (auto simp: frame_def obs_def module_eval_def split: tensor.splits)

lemma module_train_obs [frame_intros]: "frame (obs keep) (module_train i)"
  by (auto simp: frame_def obs_def module_train_def split: tensor.splits)

lemma py_div_obs [frame_intros]: "frame (obs keep) (py_div x n)"
  by (auto simp: frame_def obs_def py_div_def raise_def ret_def split: tensor.splits)

lemma accumulate_grads_obs [frame_intros]: "frame (obs keep) (accumulate_grads fw gr)"
  by (auto simp: frame_def obs_def accumulate_grads_def split: tensor.splits)

lemma layer_forward_obs: "frame (obs keep) (layer_forward fw tr l x)"
  by (cases l) (auto simp: frame_def obs_def split: tensor.splits)

lemma sequential_obs: "frame (obs keep) (sequential fw tr ls x)"
  by (induction ls arbitrary: x) (simp_all add: frame_ret frame_bind layer_forward_obs)

lemma sequential_dep_obs [frame_intros]:
  "frame (obs keep) (\<lambda>s. sequential fw (training s i) ls x s)"
  by (rule frame_dep [where m = "\<lambda>tr. sequential fw tr ls x"]) (rule sequential_obs)

lemma adam_step_obs [frame_intros]:
  "(\<And>i. \<not> keep (OptimizerStep i)) \<Longrightarrow> frame (obs keep) (adam_step fw opt)"
  by (simp add: frame_def obs_def adam_step_def)

lemma np_random_normal_obs [frame_intros]:
  "(\<And>st e. \<not> keep (Failed st e)) \<Longrightarrow> frame (obs keep) (np_random_normal fw r c)"
  by (auto simp: frame_def obs_def np_random_normal_def collab_def split: option.splits)

lemma np_random_randint_obs [frame_intros]:
  "(\<And>st e. \<not> keep (Failed st e)) \<Longrightarrow> frame (obs keep) (np_random_randint fw lo hi n)"
  by (auto simp: frame_def obs_def np_random_randint_def collab_def split: option.splits)

lemma iterate_obs [frame_intros]:
  "(\<And>st e. \<not> keep (Failed st e)) \<Longrightarrow> frame (obs keep) (iterate fw dl)"
  by (auto simp: frame_def obs_def iterate_def collab_def split: option.splits)

lemma makedirs_obs [frame_intros]:
  "(\<And>st e. \<not> keep (Failed st e)) \<Longrightarrow> frame (obs keep) (makedirs fw name)"
  by (auto simp: frame_def obs_def makedirs_def collab_def split: option.splits)

lemma plt_imread_obs [frame_intros]:
  "(\<And>st e. \<not> keep (Failed st e)) \<Longrightarrow> frame (obs keep) (plt_imread fw path)"
  by (auto simp: frame_def obs_def plt_imread_def collab_def split: option.splits)

lemma save_image_obs [frame_intros]:
  "(\<And>st e. \<not> keep (Failed st e)) \<Longrightarrow> (\<And>p. \<not> keep (SavedImage p)) \<Longrightarrow>
     frame (obs keep) (save_image fw img path nrow)"
  by (auto simp: frame_def obs_def save_image_def collab_def split: option.splits)

lemma to_device_obs [frame_intros]:
  "(\<And>st e. \<not> keep (Failed st e)) \<Longrightarrow>
   frame (obs keep) (to_device fw dev x)"
  unfolding to_device_def by (intro frame_intros; simp)

lemma backward_obs [frame_intros]:
  "(\<And>st e. \<not> keep (Failed st e)) \<Longrightarrow>
   frame (obs keep) (backward fw loss)"
  unfolding backward_def by (intro frame_intros; simp)

lemma step_obs [frame_intros]:
  "(\<And>st e. \<not> keep (Failed st e)) \<Longrightarrow>
   (\<And>i. \<not> keep (OptimizerStep i)) \<Longrightarrow>
   frame (obs keep) (step fw opt)"
  unfolding step_def by (intro frame_intros; simp)

lemma apply_loss_obs [frame_intros]:
  "(\<And>st e. \<not> keep (Failed st e)) \<Longrightarrow>
   frame (obs keep) (apply_loss fw adv_loss validity target)"
  unfolding apply_loss_def by (intro frame_intros; simp)

lemma init_figure_obs [frame_intros]:
  "(\<And>st e. \<not> keep (Failed st e)) \<Longrightarrow>
   frame (obs keep) (init_figure fw)"
  unfolding init_figure_def by (intro frame_intros; simp)

lemma plot_current_results_obs [frame_intros]:
  "(\<And>st e. \<not> keep (Failed st e)) \<Longrightarrow>
   (\<And>im a b. \<not> keep (Shown (CurrentResults im a b))) \<Longrightarrow>
   frame (obs keep) (plot_current_results fw im ml fa)"
  unfolding plot_current_results_def by (intro frame_intros; simp)

lemma plot_loss_obs [frame_intros]:
  "(\<And>st e. \<not> keep (Failed st e)) \<Longrightarrow>
   (\<And>l. \<not> keep (Shown (LossPlot l))) \<Longrightarrow>
   frame (obs keep) (plot_loss fw ml)"
  unfolding plot_loss_def by (intro frame_intros; simp)

lemma Generator_forward_obs [frame_intros]:
  "(\<And>st e. \<not> keep (Failed st e)) \<Longrightarrow>
   frame (obs keep) (Generator_forward fw g noise labels)"
  unfolding Generator_forward_def by (intro frame_intros; simp)

lemma Discriminator_forward_obs [frame_intros]:
  "(\<And>st e. \<not> keep (Failed st e)) \<Longrightarrow>
   frame (obs keep) (Discriminator_forward fw d img labels)"
  unfolding Discriminator_forward_def by (intro frame_intros; simp)

lemma discriminator_losses_obs [frame_intros]:
  "(\<And>st e. \<not> keep (Failed st e)) \<Longrightarrow>
   frame (obs keep) (discriminator_losses fw g d optimizer_D adv_loss ld nc dev x y valid fake)"
  unfolding discriminator_losses_def by (intro frame_intros; simp)

lemma generator_loss_obs [frame_intros]:
  "(\<And>st e. \<not> keep (Failed st e)) \<Longrightarrow>
   frame (obs keep) (generator_loss fw g d optimizer_G adv_loss ld nc dev bsize valid)"
  unfolding generator_loss_def by (intro frame_intros; simp)

lemma save_reconstruction_obs [frame_intros]:
  "(\<And>st e. \<not> keep (Failed st e)) \<Longrightarrow>
   (\<And>p. \<not> keep (SavedImage p)) \<Longrightarrow>
   frame (obs keep) (save_reconstruction fw g ld n e dev)"
  unfolding save_reconstruction_def by (intro frame_intros; simp)

lemma train_batch_obs [frame_intros]:
  "(\<And>st e. \<not> keep (Failed st e)) \<Longrightarrow>
   (\<And>i. \<not> keep (OptimizerStep i)) \<Longrightarrow>
   (\<And>dr df g. \<not> keep (BatchLosses dr df g)) \<Longrightarrow>
   frame (obs keep) (train_batch fw g og d od adv_loss ld nc dev batch running)"
  unfolding train_batch_def by (intro frame_intros; simp)

lemma run_epoch_obs [frame_intros]:
  "(\<And>st e. \<not> keep (Failed st e)) \<Longrightarrow>
   (\<And>i. \<not> keep (OptimizerStep i)) \<Longrightarrow>
   (\<And>dr df g. \<not> keep (BatchLosses dr df g)) \<Longrightarrow>
   (\<And>p. \<not> keep (SavedImage p)) \<Longrightarrow>
   (\<And>x. \<not> keep (Printed x)) \<Longrightarrow>
   (\<And>a b. \<not> keep (PrintedLoss a b)) \<Longrightarrow>
   (\<And>im a b. \<not> keep (Shown (CurrentResults im a b))) \<Longrightarrow>
   frame (obs keep) (run_epoch fw n dl g og d od adv_loss ld nc dev e ml)"
  unfolding run_epoch_def Let_def by (intro frame_intros; simp)

subsection \<open>Sequences of events\<close>

lemma obs_append_trace [simp]:
  "obs keep (s\<lparr>trace := trace s @ evs\<rparr>) = obs keep s @ filter keep evs"
  by (simp add: obs_def)

lemma yields_frame: "frame (obs keep) m \<Longrightarrow> yields keep m []"
proof -
  assume fr: "frame (obs keep) m"
  have "obs keep s' = obs keep s" if "m s = (r, s')" for s r s'
    using frameD [OF fr, of s] that by simp
  then show ?thesis by (simp add: yields_def)
qed

lemma yieldsD:
  "yields keep m xs \<Longrightarrow> m s = (r, s') \<Longrightarrow>
     \<exists>new. obs keep s' = obs keep s @ new \<and> (\<exists>rest. xs = new @ rest) \<and>
           (\<forall>a. r = Ok a \<longrightarrow> new = xs)"
  unfolding yields_def by blast

lemma yields_bind_post:
  assumes m: "yields keep m xs"
    and post: "\<And>s a s'. m s = (Ok a, s') \<Longrightarrow> Q a"
    and f: "\<And>a. Q a \<Longrightarrow> yields keep (f a) ys"
  shows "yields keep (bind m f) (xs @ ys)"
  unfolding yields_def
proof (intro allI impI)
  fix s :: state and r s'
  assume run: "bind m f s = (r, s')"
  obtain r1 s1 where m1: "m s = (r1, s1)" by (cases "m s")
  from yieldsD [OF m m1] obtain new1 rest1 where
    n1: "obs keep s1 = obs keep s @ new1" "xs = new1 @ rest1" "\<forall>a. r1 = Ok a \<longrightarrow> new1 = xs"
    by blast
  show "\<exists>new. obs keep s' = obs keep s @ new \<and> (\<exists>rest. xs @ ys = new @ rest) \<and>
          (\<forall>a. r = Ok a \<longrightarrow> new = xs @ ys)"
  proof (cases r1)
    case (Raise e)
    with run m1 have "r = Raise e" "s' = s1" by (simp_all add: bind_unfold)
    with n1(1,2) have "obs keep s' = obs keep s @ new1 \<and> xs @ ys = new1 @ (rest1 @ ys) \<and>
          (\<forall>a. r = Ok a \<longrightarrow> new1 = xs @ ys)" by simp
    then show ?thesis by blast
  next
    case (Ok a)
    with run m1 have fa: "f a s1 = (r, s')" by (simp add: bind_unfold)
    from Ok m1 have "Q a" by (auto intro: post)
    from yieldsD [OF f [OF this] fa] obtain new2 rest2 where
      n2: "obs keep s' = obs keep s1 @ new2" "ys = new2 @ rest2" "\<forall>a. r = Ok a \<longrightarrow> new2 = ys"
      by blast
    from Ok n1(3) have "new1 = xs" by blast
    with n1(1) n2 have "obs keep s' = obs keep s @ (xs @ new2) \<and> xs @ ys = (xs @ new2) @ rest2 \<and>
          (\<forall>a. r = Ok a \<longrightarrow> xs @ new2 = xs @ ys)" by simp
    then show ?thesis by blast
  qed
qed

lemma yields_bind:
  "yields keep m xs \<Longrightarrow> (\<And>a. yields keep (f a) ys) \<Longrightarrow> yields keep (bind m f) (xs @ ys)"
  by (rule yields_bind_post [where Q = "\<lambda>a. True"]) simp_all

lemma yields_bind_eq:
  "yields keep m xs \<Longrightarrow> (\<And>a. yields keep (f a) ys) \<Longrightarrow> zs = xs @ ys \<Longrightarrow>
     yields keep (bind m f) zs"
  by (simp add: yields_bind)

lemma yields_bind_frame:
  "frame (obs keep) m \<Longrightarrow> (\<And>a. yields keep (f a) ys) \<Longrightarrow> yields keep (bind m f) ys"
  using yields_bind [OF yields_frame, of keep m f ys] by simp

lemma yields_ret: "yields keep (ret a) []"
  by (simp add: yields_def ret_def)

lemma yields_for_each:
  assumes "\<And>x acc. yields keep (body x acc) (e x)"
  shows "yields keep (for_each body xs acc) (concat (map e xs))"
proof (induction xs arbitrary: acc)
  case Nil
  show ?case by (simp add: yields_ret)
next
  case (Cons x xs)
  show ?case
    using yields_bind [OF assms [of x acc], of "for_each body xs" "concat (map e xs)"] Cons.IH
    by simp
qed

lemma yields_step: "yields is_mark (step fw opt) [OptimizerStep (opt_id opt)]"
  by (auto simp: yields_def step_def collab_def adam_step_def obs_def split: option.splits)

lemma yields_save_image: "yields is_mark (save_image fw img path nrow) [SavedImage path]"
  by (auto simp: yields_def save_image_def collab_def obs_def split: option.splits if_splits)

lemma yields_train_batch:
  "yields is_mark (train_batch fw g og d od adv_loss ld nc dev batch running)
     [OptimizerStep (opt_id od), OptimizerStep (opt_id og)]"
proof -
  have fr: "frame (obs is_mark) (to_device fw dev x)"
    "frame (obs is_mark) (discriminator_losses fw g d od adv_loss ld nc dev im y valid fake)"
    "frame (obs is_mark) (backward fw loss)"
    "frame (obs is_mark) (generator_loss fw g d og adv_loss ld nc dev k valid)"
    for x :: 'x and im y valid fake loss k
    by (rule to_device_obs discriminator_losses_obs backward_obs generator_loss_obs; simp)+
  show ?thesis
    unfolding train_batch_def
    apply (rule yields_bind_frame, rule fr)+
    apply (rule yields_bind_eq [OF yields_step])
     apply (rule yields_bind_frame, rule fr)+
     apply (rule yields_bind_eq [OF yields_step])
      apply (rule yields_bind_frame, rule emit_obs, simp)
      apply (rule yields_ret)
     apply (rule refl)
    apply simp
    done
qed

subsection \<open>The batches of an epoch\<close>

lemma length_shuffle: "length (shuffle f pos n xs) = n"
  by (induction n arbitrary: pos xs) (simp_all add: Let_def)

lemma length_chop: "length (chop n xs) = (length xs + n - 1) div n"
proof (induction n xs rule: chop.induct)
  case (1 n xs)
  show ?case
  proof (cases "n = 0 \<or> xs = []")
    case True
    moreover have "(n - Suc 0) div n = 0" by (cases n) simp_all
    ultimately show ?thesis by (auto simp: chop.simps [of n xs])
  next
    case False
    then have n: "0 < n" and l: "0 < length xs" by auto
    from False have "length (chop n xs) = Suc (length (chop n (drop n xs)))"
      by (simp add: chop.simps [of n xs])
    also from 1 [OF False] have "\<dots> = Suc ((length (drop n xs) + n - 1) div n)" by simp
    also have "\<dots> = (length xs + n - 1) div n"
    proof (cases "length xs \<le> n")
      case True
      from l have "n \<le> length xs + n - 1" by arith
      moreover from True l n have "length xs + n - 1 < n + n" by arith
      ultimately have "(length xs + n - 1) div n = 1"
        by (intro div_nat_eqI) simp_all
      with True n show ?thesis by simp
    next
      case False
      then have "length xs + n - 1 = (length xs - n + n - 1) + n" by simp
      then have "(length xs + n - 1) div n = ((length xs - n + n - 1) + n) div n" by simp
      also have "\<dots> = Suc ((length xs - n + n - 1) div n)"
        using n by (simp only: div_add_self2) 
      finally show ?thesis by simp
    qed
    finally show ?thesis .
  qed
qed

lemma iterate_length:
  "iterate fw dl s = (Ok bs, s') \<Longrightarrow> length bs = len_dataloader dl"
  by (auto simp: iterate_def collab_Ok len_dataloader_def length_chop length_shuffle)

lemma yields_bind_frame_post:
  assumes "frame (obs keep) m" and "\<And>s a s'. m s = (Ok a, s') \<Longrightarrow> Q a"
    and "\<And>a. Q a \<Longrightarrow> yields keep (f a) ys"
  shows "yields keep (bind m f) ys"
  using yields_bind_post [OF yields_frame [OF assms(1)], of Q f ys] assms(2,3) by simp

lemma yields_save_reconstruction:
  "yields is_mark (save_reconstruction fw g ld n e dev) [SavedImage (png_path e)]"
proof -
  have fr: "frame (obs is_mark) (to_device fw dev x)"
    "frame (obs is_mark) (makedirs fw name)"
    "frame (obs is_mark) (np_random_normal fw r c)"
    "frame (obs is_mark) (Generator_forward fw g z labels)"
    "frame (obs is_mark) (plt_imread fw path)"
    for x :: 'x and name r c z labels path
    by (rule to_device_obs makedirs_obs np_random_normal_obs Generator_forward_obs
          plt_imread_obs; simp)+
  show ?thesis
    unfolding save_reconstruction_def
    apply (rule yields_bind_frame, rule fr)+
    apply (rule yields_bind_eq [OF yields_save_image])
     apply (rule yields_frame, rule fr)
    apply simp
    done
qed

lemma yields_run_epoch:
  "yields is_mark (run_epoch fw n dl g og d od adv_loss ld nc dev e ml)
     (epoch_marks od og (len_dataloader dl) e)"
  unfolding run_epoch_def Let_def epoch_marks_def
  apply (rule yields_bind_frame, rule emit_obs, simp)+
  apply (rule yields_bind_frame_post [where Q = "\<lambda>bs. length bs = len_dataloader dl"])
    apply (rule iterate_obs, simp)
   apply (erule iterate_length)
  apply (rule yields_bind_eq)
    apply (rule yields_for_each, rule yields_train_batch)
   apply (rule yields_bind_frame, rule py_div_obs)+
   apply (rule yields_bind_frame, rule emit_obs, simp)
   apply (simp only: mod_by_1 simp_thms if_True)
   apply (rule yields_bind_frame, rule module_eval_obs)
   apply (rule yields_bind_eq [OF yields_save_reconstruction])
    apply (rule yields_bind_frame, rule init_figure_obs, simp)
    apply (rule yields_bind_frame, rule plot_current_results_obs, simp, simp)
    apply (rule yields_bind_frame, rule module_train_obs)
    apply (rule yields_ret)
   apply (rule refl)
  apply (simp add: map_replicate_const)
  done

lemma yields_train_model:
  "yields is_mark (train_model fw n dl g og d od adv_loss ld nc dev)
     (concat (map (epoch_marks od og (len_dataloader dl)) [0..<n]))"
  unfolding train_model_def
  apply (rule yields_bind_eq)
    apply (rule yields_for_each, rule yields_run_epoch)
   apply (rule yields_frame, rule plot_loss_obs, simp, simp)
  apply simp
  done

subsection \<open>Optimizer steps and saved images among the marks\<close>

lemma opt_steps_append: "opt_steps (xs @ ys) = opt_steps xs @ opt_steps ys"
  by (simp add: opt_steps_def)

lemma saved_images_append: "saved_images (xs @ ys) = saved_images xs @ saved_images ys"
  by (simp add: saved_images_def)

lemma opt_steps_marks: "opt_steps (filter is_mark evs) = opt_steps evs"
proof (induction evs)
  case Nil
  show ?case by simp
next
  case (Cons ev evs)
  then show ?case by (cases ev) (simp_all add: opt_steps_def)
qed

lemma saved_images_marks: "saved_images (filter is_mark evs) = saved_images evs"
proof (induction evs)
  case Nil
  show ?case by simp
next
  case (Cons ev evs)
  then show ?case by (cases ev) (simp_all add: saved_images_def)
qed

lemma opt_steps_batches:
  "opt_steps (concat (replicate k [OptimizerStep i, OptimizerStep j])) = concat (replicate k [i, j])"
  by (induction k) (simp_all add: opt_steps_def)

lemma saved_images_batches:
  "saved_images (concat (replicate k [OptimizerStep i, OptimizerStep j])) = []"
  by (induction k) (simp_all add: saved_images_def)

lemma opt_steps_epoch:
  "opt_steps (epoch_marks od og len e) = concat (replicate len [opt_id od, opt_id og])"
  by (simp add: epoch_marks_def opt_steps_append opt_steps_batches) (simp add: opt_steps_def)

lemma saved_images_epoch: "saved_images (epoch_marks od og len e) = [png_path e]"
  by (simp add: epoch_marks_def saved_images_append saved_images_batches)
     (simp add: saved_images_def)

lemma opt_steps_epochs:
  "opt_steps (concat (map (epoch_marks od og len) es)) =
     concat (replicate (length es * len) [opt_id od, opt_id og])"
  by (induction es) (simp_all add: opt_steps_append opt_steps_epoch replicate_add, simp add: opt_steps_def)

lemma saved_images_epochs:
  "saved_images (concat (map (epoch_marks od og len) es)) = map png_path es"
  by (induction es) (simp_all add: saved_images_append saved_images_epoch, simp add: saved_images_def)

lemma yields_projection:
  assumes y: "yields is_mark m xs" and run: "m s = (r, s')"
    and app: "\<And>a b. h (a @ b) = h a @ h b" and nil: "h [] = []"
    and marks: "\<And>evs. h (filter is_mark evs) = h evs"
  shows "\<exists>new rest. h (trace s') = h (trace s) @ new \<and> h xs = new @ rest \<and>
           (\<forall>a. r = Ok a \<longrightarrow> rest = [])"
proof -
  from yieldsD [OF y run] obtain new0 rest0 where
    n: "obs is_mark s' = obs is_mark s @ new0" "xs = new0 @ rest0"
      "\<forall>a. r = Ok a \<longrightarrow> new0 = xs"
    by blast
  have "h (trace s') = h (obs is_mark s')" by (simp add: obs_def marks)
  also have "\<dots> = h (trace s) @ h new0" by (simp add: n(1) app) (simp add: obs_def marks)
  finally have 1: "h (trace s') = h (trace s) @ h new0" .
  from n(2) have 2: "h xs = h new0 @ h rest0" by (simp add: app)
  from n(2,3) have "\<forall>a. r = Ok a \<longrightarrow> rest0 = []" by auto
  then have 3: "\<forall>a. r = Ok a \<longrightarrow> h rest0 = []" by (auto simp: nil)
  from 1 2 3 show ?thesis by blast
qed

section \<open>Alternating updates (claim C2)\<close>

text \<open>
  Claim C2. One batch adds to the optimizer steps of the trace the step of
  \<open>optimizer_D\<close> and then the step of \<open>optimizer_G\<close>, and nothing else: both, in this
  order, when the batch returns, and a prefix of the two when it raises. A call of
  \<open>train_model\<close> over \<open>n\<close> epochs of a dataloader of \<open>len(dataloader)\<close> batches adds
  \<open>n * len(dataloader)\<close> such pairs when it returns, and a prefix of that alternating
  sequence when it raises: the updates alternate, starting with the discriminator.
\<close>

theorem updates_alternate:
  "(train_batch fw g og d od adv_loss ld nc dev batch running s = (r, s') \<longrightarrow>
      (\<exists>new rest. opt_steps (trace s') = opt_steps (trace s) @ new \<and>
                  [opt_id od, opt_id og] = new @ rest \<and> (\<forall>a. r = Ok a \<longrightarrow> rest = []))) \<and>
   (train_model fw n dl g og d od adv_loss ld nc dev t = (q, t') \<longrightarrow>
      (\<exists>new rest. opt_steps (trace t') = opt_steps (trace t) @ new \<and>
                  concat (replicate (n * len_dataloader dl) [opt_id od, opt_id og]) = new @ rest \<and>
                  (\<forall>a. q = Ok a \<longrightarrow> rest = [])))"
proof (intro conjI impI)
  assume "train_batch fw g og d od adv_loss ld nc dev batch running s = (r, s')"
  from yields_projection [OF yields_train_batch this, of opt_steps]
  show "\<exists>new rest. opt_steps (trace s') = opt_steps (trace s) @ new \<and>
          [opt_id od, opt_id og] = new @ rest \<and> (\<forall>a. r = Ok a \<longrightarrow> rest = [])"
    by (simp add: opt_steps_append opt_steps_marks) (simp add: opt_steps_def)
next
  assume "train_model fw n dl g og d od adv_loss ld nc dev t = (q, t')"
  from yields_projection [OF yields_train_model this, of opt_steps]
  show "\<exists>new rest. opt_steps (trace t') = opt_steps (trace t) @ new \<and>
          concat (replicate (n * len_dataloader dl) [opt_id od, opt_id og]) = new @ rest \<and>
          (\<forall>a. q = Ok a \<longrightarrow> rest = [])"
    by (simp add: opt_steps_append opt_steps_marks opt_steps_epochs) (simp add: opt_steps_def)
qed

theorem updates_alternate_witness:
  "fst (train_model demo_fw 1 demo_dataloader demo_generator demo_optimizer_G
          demo_discriminator demo_optimizer_D MSELoss 1 2 CPU demo_state) = Ok () \<and>
   opt_steps (trace (snd (train_model demo_fw 1 demo_dataloader demo_generator demo_optimizer_G
          demo_discriminator demo_optimizer_D MSELoss 1 2 CPU demo_state))) = [3, 2, 3, 2]"
proof -
  let ?run = "train_model demo_fw 1 demo_dataloader demo_generator demo_optimizer_G
          demo_discriminator demo_optimizer_D MSELoss 1 2 CPU demo_state"
  have run: "?run = (Ok (), snd ?run)"
    using demo_run_ok by (cases ?run) simp
  have len: "len_dataloader demo_dataloader = 2"
    by (simp add: len_dataloader_def demo_dataloader_def)
  have start: "opt_steps (trace demo_state) = []"
    by (simp add: opt_steps_def demo_state_def)
  from updates_alternate [THEN conjunct2, rule_format, OF run]
  obtain new rest where
    "opt_steps (trace (snd ?run)) = opt_steps (trace demo_state) @ new"
    "concat (replicate (1 * len_dataloader demo_dataloader)
       [opt_id demo_optimizer_D, opt_id demo_optimizer_G]) = new @ rest"
    "\<forall>a. Ok () = Ok a \<longrightarrow> rest = []"
    by blast
  then have "opt_steps (trace (snd ?run)) = [3, 2, 3, 2]"
    by (simp add: len start demo_optimizer_D_def demo_optimizer_G_def numeral_2_eq_2)
  with demo_run_ok show ?thesis by simp
qed

section \<open>One image per epoch (claim C4)\<close>

lemma storage_trace [simp]: "storage (s\<lparr>trace := t\<rparr>) = storage s"
  by (simp add: storage_def)

lemma embedding_storage [frame_intros]: "frame storage (embedding a labels)"
  by (auto simp: frame_def storage_def embedding_def split: option.splits result.splits tensor.splits)

lemma layer_forward_storage: "frame storage (layer_forward fw tr l x)"
  by (cases l) (auto simp: frame_def storage_def split: tensor.splits)

lemma sequential_storage: "frame storage (sequential fw tr ls x)"
  by (induction ls arbitrary: x) (simp_all add: frame_ret frame_bind layer_forward_storage)

lemma sequential_dep_storage [frame_intros]:
  "frame storage (\<lambda>s. sequential fw (training s i) ls x s)"
  by (rule frame_dep [where m = "\<lambda>tr. sequential fw tr ls x"]) (rule sequential_storage)

lemma Generator_forward_storage: "frame storage (Generator_forward fw g noise labels)"
  unfolding Generator_forward_def by (intro frame_intros; simp)

lemma init_figure_storage: "frame storage (init_figure fw)"
  by (auto simp: frame_def storage_def init_figure_def collab_def ret_def split: option.splits)

lemma plot_current_results_storage: "frame storage (plot_current_results fw im ml fa)"
  by (auto simp: frame_def storage_def plot_current_results_def collab_def emit_def raise_def
      split: option.splits)

lemma module_train_storage: "frame storage (module_train i)"
  by (simp add: frame_def storage_def module_train_def)

lemma makedirs_Ok:
  "makedirs fw name s = (Ok u, s') \<Longrightarrow>
     dirs s' = (if name \<in> set (dirs s) then dirs s else name # dirs s) \<and> files s' = files s"
  by (auto simp: makedirs_def collab_Ok split: if_splits)

lemma np_random_normal_storage: "frame storage (np_random_normal fw r c)"
  by (auto simp: frame_def storage_def np_random_normal_def collab_def split: option.splits)

lemma parent_dir_png_path: "parent_dir (png_path e) = ''results''"
  by (simp add: parent_dir_def png_path_def)

lemma save_reconstruction_storage:
  assumes "save_reconstruction fw g ld n e dev s = (Ok im, s')"
  shows "dirs s' = (if ''results'' \<in> set (dirs s) then dirs s else ''results'' # dirs s) \<and>
         files s' (png_path e) = Some im"
proof -
  from assms obtain u z gen_imgs s1 s2 s3 s4 v where
      m: "makedirs fw ''results'' s = (Ok u, s1)"
    and z: "np_random_normal fw (n ^ 2) ld s1 = (Ok z, s2)"
    and g: "Generator_forward fw g z (grid_labels n) s2 = (Ok gen_imgs, s3)"
    and w: "save_image fw (fst gen_imgs) (png_path e) n s3 = (Ok v, s4)"
    and r: "plt_imread fw (png_path e) s4 = (Ok im, s')"
    unfolding save_reconstruction_def by (auto simp: bind_Ok to_device_Ok)
  from frameD2 [OF np_random_normal_storage z] frameD2 [OF Generator_forward_storage g]
  have "storage s3 = storage s1" by simp
  then have "dirs s3 = dirs s1" by (simp add: storage_def)
  with makedirs_Ok [OF m] save_image_Ok [OF w] plt_imread_Ok [OF r] show ?thesis
    by simp
qed

lemma run_epoch_storage:
  assumes "run_epoch fw n dl g og d od adv_loss ld nc dev e ml s = (Ok ml', s')"
  shows "''results'' \<in> set (dirs s') \<and> (\<exists>im. files s' (png_path e) = Some im)"
proof -
  from assms obtain im s3 s4 s5 s6 s7 u v w where
      sv: "save_reconstruction fw g ld nc e dev s3 = (Ok im, s4)"
    and a: "init_figure fw s4 = (Ok u, s5)"
    and b: "plot_current_results fw im
              \<lparr>loss_generator = loss_generator ml @ [v],
               loss_discriminator = loss_discriminator ml @ [w]\<rparr> u s5 = (Ok (), s6)"
    and c: "module_train (gen_id g) s6 = (Ok (), s')"
    unfolding run_epoch_def Let_def by (auto simp: bind_Ok ret_eq)
  from frameD2 [OF init_figure_storage a] frameD2 [OF plot_current_results_storage b]
    frameD2 [OF module_train_storage c]
  have "storage s' = storage s4" by simp
  then have "dirs s' = dirs s4" "files s' = files s4" by (simp_all add: storage_def)
  with save_reconstruction_storage [OF sv] show ?thesis by auto
qed

lemma digit_char_inj: "a < 10 \<Longrightarrow> b < 10 \<Longrightarrow> digit_char a = digit_char b \<Longrightarrow> a = b"
  by (simp add: digit_char_def char_of_eq_iff take_bit_eq_mod)

lemma show_nat_nonempty: "show_nat n \<noteq> []"
  by (subst show_nat.simps) simp

lemma show_nat_inj: "show_nat m = show_nat n \<Longrightarrow> m = n"
proof (induction m arbitrary: n rule: show_nat.induct)
  case (1 m)
  show ?case
  proof (cases "m < 10")
    case True
    show ?thesis
    proof (cases "n < 10")
      case n: True
      from 1(2) True n have "digit_char m = digit_char n"
        by (simp add: show_nat.simps [of m] show_nat.simps [of n])
      with True n show ?thesis by (auto intro: digit_char_inj)
    next
      case False
      with 1(2) True have "[digit_char m] = show_nat (n div 10) @ [digit_char (n mod 10)]"
        by (simp add: show_nat.simps [of m] show_nat.simps [of n])
      then have "show_nat (n div 10) = []" by simp
      with show_nat_nonempty show ?thesis by blast
    qed
  next
    case False
    show ?thesis
    proof (cases "n < 10")
      case True
      with 1(2) False have "show_nat (m div 10) @ [digit_char (m mod 10)] = [digit_char n]"
        by (simp add: show_nat.simps [of m] show_nat.simps [of n])
      then have "show_nat (m div 10) = []" by simp
      with show_nat_nonempty show ?thesis by blast
    next
      case n: False
      with 1(2) False have
        "show_nat (m div 10) @ [digit_char (m mod 10)] =
         show_nat (n div 10) @ [digit_char (n mod 10)]"
        by (simp add: show_nat.simps [of m] show_nat.simps [of n])
      then have eq: "show_nat (m div 10) = show_nat (n div 10)"
        "digit_char (m mod 10) = digit_char (n mod 10)" by simp_all
      from 1(1) [OF False eq(1)] have d: "m div 10 = n div 10" .
      from eq(2) have "m mod 10 = n mod 10" by (intro digit_char_inj) simp_all
      with d show ?thesis by (metis div_mult_mod_eq)
    qed
  qed
qed

lemma png_path_inj: "png_path e = png_path e' \<Longrightarrow> e = e'"
  by (simp add: png_path_def show_nat_inj)

text \<open>
  Claim C4. The images saved by a call of \<open>train_model\<close> over \<open>n\<close> epochs are, in order,
  \<open>results/0.png\<close>, ..., \<open>results/(n-1).png\<close> when the call returns, and a prefix of
  this list when it raises. After an epoch that returns, the directory \<open>results\<close>
  exists and the file of that epoch is in it; \<open>save_reconstruction\<close> creates the
  directory exactly when it is missing and leaves in the file the image it returns.
  The file names of different epochs differ.
\<close>

theorem one_image_per_epoch:
  "(train_model fw n dl g og d od adv_loss ld nc dev t = (q, t') \<longrightarrow>
      (\<exists>new rest. saved_images (trace t') = saved_images (trace t) @ new \<and>
                  map png_path [0..<n] = new @ rest \<and> (\<forall>a. q = Ok a \<longrightarrow> rest = []))) \<and>
   (run_epoch fw n dl g og d od adv_loss ld nc dev e ml s = (Ok ml', s') \<longrightarrow>
      ''results'' \<in> set (dirs s') \<and> (\<exists>im. files s' (png_path e) = Some im)) \<and>
   (save_reconstruction fw g ld nc e dev u = (Ok im, u') \<longrightarrow>
      dirs u' = (if ''results'' \<in> set (dirs u) then dirs u else ''results'' # dirs u) \<and>
      files u' (png_path e) = Some im) \<and>
   parent_dir (png_path e) = ''results'' \<and>
   (png_path e = png_path e' \<longrightarrow> e = e')"
proof (intro conjI impI)
  assume "train_model fw n dl g og d od adv_loss ld nc dev t = (q, t')"
  from yields_projection [OF yields_train_model this, of saved_images]
  show "\<exists>new rest. saved_images (trace t') = saved_images (trace t) @ new \<and>
          map png_path [0..<n] = new @ rest \<and> (\<forall>a. q = Ok a \<longrightarrow> rest = [])"
    by (simp add: saved_images_append saved_images_marks saved_images_epochs)
       (simp add: saved_images_def)
next
  assume r: "run_epoch fw n dl g og d od adv_loss ld nc dev e ml s = (Ok ml', s')"
  from run_epoch_storage [OF r] show "''results'' \<in> set (dirs s')"
    and "\<exists>im. files s' (png_path e) = Some im" by simp_all
next
  assume r: "save_reconstruction fw g ld nc e dev u = (Ok im, u')"
  from save_reconstruction_storage [OF r]
  show "dirs u' = (if ''results'' \<in> set (dirs u) then dirs u else ''results'' # dirs u)"
    and "files u' (png_path e) = Some im" by simp_all
next
  show "parent_dir (png_path e) = ''results''" by (rule parent_dir_png_path)
next
  assume "png_path e = png_path e'"
  then show "e = e'" by (rule png_path_inj)
qed

theorem one_image_per_epoch_witness:
  "fst (train_model demo_fw 1 demo_dataloader demo_generator demo_optimizer_G
          demo_discriminator demo_optimizer_D MSELoss 1 2 CPU demo_state) = Ok () \<and>
   saved_images (trace (snd (train_model demo_fw 1 demo_dataloader demo_generator
          demo_optimizer_G demo_discriminator demo_optimizer_D MSELoss 1 2 CPU demo_state)))
     = [''results/0.png'']"
proof -
  let ?run = "train_model demo_fw 1 demo_dataloader demo_generator demo_optimizer_G
          demo_discriminator demo_optimizer_D MSELoss 1 2 CPU demo_state"
  have run: "?run = (Ok (), snd ?run)"
    using demo_run_ok by (cases ?run) simp
  have start: "saved_images (trace demo_state) = []"
    by (simp add: saved_images_def demo_state_def)
  have name: "png_path 0 = ''results/0.png''"
    by code_simp
  from one_image_per_epoch [THEN conjunct1, rule_format, OF run]
  obtain new rest where
    "saved_images (trace (snd ?run)) = saved_images (trace demo_state) @ new"
    "map png_path [0..<1] = new @ rest"
    "\<forall>a. Ok () = Ok a \<longrightarrow> rest = []"
    by blast
  then have "saved_images (trace (snd ?run)) = [''results/0.png'']"
    by (simp add: start name)
  with demo_run_ok show ?thesis by simp
qed

section \<open>The losses of an epoch\<close>

subsection \<open>Runs that return\<close>

lemma ok_relD: "ok_rel m R \<Longrightarrow> m s = (Ok a, s') \<Longrightarrow> R s a s'"
  by (simp add: ok_rel_def)

lemma ok_bind:
  "ok_rel m R \<Longrightarrow> (\<And>a. ok_rel (f a) (Q a)) \<Longrightarrow>
     ok_rel (bind m f) (\<lambda>s b s'. \<exists>a s1. R s a s1 \<and> Q a s1 b s')"
  unfolding ok_rel_def bind_Ok by blast

lemma ok_ret: "ok_rel (ret v) (\<lambda>s a s'. a = v \<and> s' = s)"
  by (simp add: ok_rel_def ret_eq)

lemma ok_weaken: "ok_rel m R \<Longrightarrow> (\<And>s a s'. R s a s' \<Longrightarrow> R' s a s') \<Longrightarrow> ok_rel m R'"
  by (simp add: ok_rel_def)

lemma emit_eq: "emit ev s = (r, s') \<longleftrightarrow> r = Ok () \<and> s' = s\<lparr>trace := trace s @ [ev]\<rparr>"
  by (auto simp: emit_def)

lemma batch_losses_append: "batch_losses (xs @ ys) = batch_losses xs @ batch_losses ys"
  by (simp add: batch_losses_def)

lemma batch_losses_filter: "batch_losses (filter is_loss evs) = batch_losses evs"
proof (induction evs)
  case Nil
  show ?case by simp
next
  case (Cons ev evs)
  then show ?case by (cases ev) (simp_all add: batch_losses_def)
qed

lemma batch_losses_obs: "obs is_loss s' = obs is_loss s \<Longrightarrow> batch_losses (trace s') = batch_losses (trace s)"
  by (metis batch_losses_filter obs_def)

lemma ok_losses:
  "frame (obs is_loss) m \<Longrightarrow>
     ok_rel m (\<lambda>s a s'. batch_losses (trace s') = batch_losses (trace s))"
  unfolding ok_rel_def by (auto dest: frameD2 intro: batch_losses_obs)

lemma train_batch_Ok:
  assumes "train_batch fw g og d od adv_loss ld nc dev batch running s = (Ok r, s')"
  shows "\<exists>dls gl valid fake s1 s2 s3 s4.
           discriminator_losses fw g d od adv_loss ld nc dev (fst batch) (snd batch) valid fake s1
             = (Ok dls, s2) \<and>
           generator_loss fw g d og adv_loss ld nc dev (length (samples (fst batch))) valid s3
             = (Ok gl, s4) \<and>
           batch_losses (trace s') =
             batch_losses (trace s) @ [(fst (fst dls), fst (snd dls), fst gl)] \<and>
           r = (py_add (fst running) (batch_g (fst (fst dls), fst (snd dls), fst gl)),
                py_add (snd running) (batch_d (fst (fst dls), fst (snd dls), fst gl)))"
proof -
  let ?valid = "replicate (length (samples (fst batch))) [Fin 1]"
  let ?fake = "replicate (length (samples (fst batch))) [Fin 0]"
  from assms obtain dls gl s2 s3 s4 s5 s6 s7 where
      a: "discriminator_losses fw g d od adv_loss ld nc dev (fst batch) (snd batch) ?valid ?fake s
            = (Ok dls, s2)"
    and b: "backward fw (half_sum (fst dls) (snd dls)) s2 = (Ok (), s3)"
    and c: "step fw od s3 = (Ok (), s4)"
    and e: "generator_loss fw g d og adv_loss ld nc dev (length (samples (fst batch))) ?valid s4
            = (Ok gl, s5)"
    and f: "backward fw gl s5 = (Ok (), s6)"
    and h: "step fw og s6 = (Ok (), s7)"
    and s': "s' = s7\<lparr>trace := trace s7 @ [BatchLosses (fst (fst dls)) (fst (snd dls)) (fst gl)]\<rparr>"
    and r: "r = (py_add (fst running) (fst gl),
                 py_add (snd running) (fst (half_sum (fst dls) (snd dls))))"
    unfolding train_batch_def by (auto simp: bind_Ok to_device_Ok ret_eq emit_eq)
  have "obs is_loss s7 = obs is_loss s"
    using frameD2 [OF discriminator_losses_obs a] frameD2 [OF backward_obs b]
      frameD2 [OF step_obs c] frameD2 [OF generator_loss_obs e] frameD2 [OF backward_obs f]
      frameD2 [OF step_obs h]
    by simp
  then have "batch_losses (trace s7) = batch_losses (trace s)" by (rule batch_losses_obs)
  with s' have t: "batch_losses (trace s') =
      batch_losses (trace s) @ [(fst (fst dls), fst (snd dls), fst gl)]"
    by (simp add: batch_losses_append) (simp add: batch_losses_def)
  from r have "r = (py_add (fst running) (batch_g (fst (fst dls), fst (snd dls), fst gl)),
                py_add (snd running) (batch_d (fst (fst dls), fst (snd dls), fst gl)))"
    by (simp add: batch_g_def batch_d_def half_sum_def)
  with a e t show ?thesis by blast
qed

lemma for_each_batches_Ok:
  "for_each (train_batch fw g og d od adv_loss ld nc dev) bs acc s = (Ok r, s') \<Longrightarrow>
     \<exists>ls. length ls = length bs \<and>
          batch_losses (trace s') = batch_losses (trace s) @ ls \<and>
          r = (foldl py_add (fst acc) (map batch_g ls), foldl py_add (snd acc) (map batch_d ls))"
proof (induction bs arbitrary: acc s)
  case Nil
  then show ?case by (simp add: ret_eq)
next
  case (Cons b bs)
  from Cons.prems obtain a s1 where
      1: "train_batch fw g og d od adv_loss ld nc dev b acc s = (Ok a, s1)"
    and 2: "for_each (train_batch fw g og d od adv_loss ld nc dev) bs a s1 = (Ok r, s')"
    by (auto simp: bind_Ok)
  from train_batch_Ok [OF 1] obtain l where
    l: "batch_losses (trace s1) = batch_losses (trace s) @ [l]"
      "a = (py_add (fst acc) (batch_g l), py_add (snd acc) (batch_d l))"
    by blast
  from Cons.IH [OF 2] obtain ls where
    ls: "length ls = length bs" "batch_losses (trace s') = batch_losses (trace s1) @ ls"
      "r = (foldl py_add (fst a) (map batch_g ls), foldl py_add (snd a) (map batch_d ls))"
    by blast
  from l ls have "length (l # ls) = length (b # bs) \<and>
      batch_losses (trace s') = batch_losses (trace s) @ (l # ls) \<and>
      r = (foldl py_add (fst acc) (map batch_g (l # ls)),
           foldl py_add (snd acc) (map batch_d (l # ls)))"
    by simp
  then show ?case by blast
qed

lemma py_div_Ok: "py_div x n s = (Ok v, s') \<longleftrightarrow> n \<noteq> 0 \<and> v = div_fl DBL_MAX x (real n) \<and> s' = s"
  by (auto simp: py_div_def raise_def ret_def)

lemma for_each_batches_rel:
  "ok_rel (for_each (train_batch fw g og d od adv_loss ld nc dev) bs acc)
     (\<lambda>s r s'. \<exists>ls. length ls = length bs \<and>
          batch_losses (trace s') = batch_losses (trace s) @ ls \<and>
          r = (foldl py_add (fst acc) (map batch_g ls), foldl py_add (snd acc) (map batch_d ls)))"
  unfolding ok_rel_def by (blast dest: for_each_batches_Ok)

lemma iterate_rel:
  "ok_rel (iterate fw dl)
     (\<lambda>s bs s'. length bs = len_dataloader dl \<and> batch_losses (trace s') = batch_losses (trace s))"
  unfolding ok_rel_def
  by (auto dest: iterate_length frameD2 [OF iterate_obs [where keep = is_loss], rotated]
      intro: batch_losses_obs)

lemma py_div_rel:
  "ok_rel (py_div x n) (\<lambda>s v s'. n \<noteq> 0 \<and> v = div_fl DBL_MAX x (real n) \<and> s' = s)"
  by (auto simp: ok_rel_def py_div_def raise_def ret_def)

lemma run_epoch_rel:
  "ok_rel (run_epoch fw n dl g og d od adv_loss ld nc dev e ml)
     (\<lambda>s ml' s'. \<exists>ls. length ls = len_dataloader dl \<and> 0 < len_dataloader dl \<and>
           batch_losses (trace s') = batch_losses (trace s) @ ls \<and>
           ml' = \<lparr>loss_generator =
                    loss_generator ml @ [epoch_mean (map batch_g ls) (len_dataloader dl)],
                  loss_discriminator =
                    loss_discriminator ml @ [epoch_mean (map batch_d ls) (len_dataloader dl)]\<rparr>)"
  apply (rule ok_weaken)
  unfolding run_epoch_def Let_def
   apply (rule ok_bind, rule ok_losses, rule emit_obs, simp)
   apply (rule ok_bind, rule ok_losses, rule emit_obs, simp)
   apply (rule ok_bind, rule iterate_rel)
   apply (rule ok_bind, rule for_each_batches_rel)
   apply (rule ok_bind, rule py_div_rel)
   apply (rule ok_bind, rule py_div_rel)
   apply (rule ok_bind, rule ok_losses, rule emit_obs, simp)
   apply (simp only: mod_by_1 simp_thms if_True)
   apply (rule ok_bind, rule ok_losses, rule module_eval_obs)
   apply (rule ok_bind, rule ok_losses, rule save_reconstruction_obs, simp, simp)
   apply (rule ok_bind, rule ok_losses, rule init_figure_obs, simp)
   apply (rule ok_bind, rule ok_losses, rule plot_current_results_obs, simp, simp)
   apply (rule ok_bind, rule ok_losses, rule module_train_obs)
   apply (rule ok_ret)
  apply (clarsimp simp: epoch_mean_def; blast)
  done

lemma run_epoch_Ok:
  assumes "run_epoch fw n dl g og d od adv_loss ld nc dev e ml s = (Ok ml', s')"
  shows "\<exists>ls. length ls = len_dataloader dl \<and> 0 < len_dataloader dl \<and>
           batch_losses (trace s') = batch_losses (trace s) @ ls \<and>
           ml' = \<lparr>loss_generator =
                    loss_generator ml @ [epoch_mean (map batch_g ls) (len_dataloader dl)],
                  loss_discriminator =
                    loss_discriminator ml @ [epoch_mean (map batch_d ls) (len_dataloader dl)]\<rparr>"
  using ok_relD [OF run_epoch_rel assms] .

subsection \<open>Finite sums\<close>

lemma demo_epoch:
  "fst (run_epoch demo_fw 1 demo_dataloader demo_generator demo_optimizer_G
          demo_discriminator demo_optimizer_D MSELoss 1 2 CPU 0
          \<lparr>loss_generator = [], loss_discriminator = []\<rparr> demo_state)
     = Ok \<lparr>loss_generator = [Fin 1], loss_discriminator = [Fin (1 / 2)]\<rparr>"
  by (simp add: loop_defs demo_defs run_defs)







section \<open>Epoch losses as means (claim C9)\<close>

text \<open>
  Claim C9. When an epoch returns, the trace has gained the losses of
  \<open>len(dataloader)\<close> batches, one triple \<open>(d_real_loss, d_fake_loss, g_loss)\<close> per
  batch, and the epoch has appended to the history: as generator loss the sum of the
  \<open>g_loss\<close> of these batches divided by \<open>len(dataloader)\<close>, and as discriminator
  loss the sum of their \<open>(d_real_loss + d_fake_loss) / 2\<close> divided by
  \<open>len(dataloader)\<close>. Sums and quotients are those of the code: added up from \<open>0.0\<close> in
  batch order, in double precision.
\<close>

theorem epoch_losses_are_means:
  assumes "run_epoch fw n dl g og d od adv_loss ld nc dev e ml s = (Ok ml', s')"
  shows "\<exists>ls. batch_losses (trace s') = batch_losses (trace s) @ ls \<and>
           length ls = len_dataloader dl \<and>
           loss_generator ml' =
             loss_generator ml @ [epoch_mean (map batch_g ls) (len_dataloader dl)] \<and>
           loss_discriminator ml' =
             loss_discriminator ml @ [epoch_mean (map batch_d ls) (len_dataloader dl)]"
proof -
  from run_epoch_Ok [OF assms] obtain ls where
    "length ls = len_dataloader dl" "batch_losses (trace s') = batch_losses (trace s) @ ls"
    "ml' = \<lparr>loss_generator =
              loss_generator ml @ [epoch_mean (map batch_g ls) (len_dataloader dl)],
            loss_discriminator =
              loss_discriminator ml @ [epoch_mean (map batch_d ls) (len_dataloader dl)]\<rparr>"
    by blast
  then show ?thesis by auto
qed

theorem epoch_losses_are_means_witness:
  "\<exists>ls. batch_losses (trace (snd (run_epoch demo_fw 1 demo_dataloader demo_generator
            demo_optimizer_G demo_discriminator demo_optimizer_D MSELoss 1 2 CPU 0
            \<lparr>loss_generator = [], loss_discriminator = []\<rparr> demo_state))) = ls \<and>
        length ls = 2 \<and>
        epoch_mean (map batch_g ls) 2 = Fin 1 \<and> epoch_mean (map batch_d ls) 2 = Fin (1 / 2)"
proof -
  let ?run = "run_epoch demo_fw 1 demo_dataloader demo_generator
            demo_optimizer_G demo_discriminator demo_optimizer_D MSELoss 1 2 CPU 0
            \<lparr>loss_generator = [], loss_discriminator = []\<rparr> demo_state"
  have run: "?run = (Ok \<lparr>loss_generator = [Fin 1], loss_discriminator = [Fin (1 / 2)]\<rparr>, snd ?run)"
    using demo_epoch by (cases ?run) simp
  have len: "len_dataloader demo_dataloader = 2"
    by (simp add: len_dataloader_def demo_dataloader_def)
  have start: "batch_losses (trace demo_state) = []"
    by (simp add: batch_losses_def demo_state_def)
  from epoch_losses_are_means [OF run] show ?thesis
    by (simp add: len start)
qed

section \<open>Finiteness of the losses (claim C7)\<close>




section \<open>The loss history (claim C3)\<close>

lemma plot_loss_Ok:
  "plot_loss fw ml s = (Ok x, s') \<Longrightarrow>
     trace s' = trace s @ [Shown (LossPlot [(''generator'', loss_generator ml),
                                             (''discriminator'', loss_discriminator ml)])]"
  by (auto simp: plot_loss_def collab_Ok emit_eq)

lemma for_each_epochs_Ok:
  "for_each (run_epoch fw n dl g og d od adv_loss ld nc dev) es ml s = (Ok ml', s') \<Longrightarrow>
     \<exists>gs ds. length gs = length es \<and> length ds = length es \<and>
             loss_generator ml' = loss_generator ml @ gs \<and>
             loss_discriminator ml' = loss_discriminator ml @ ds"
proof (induction es arbitrary: ml s)
  case Nil
  then show ?case by (simp add: ret_eq)
next
  case (Cons e es)
  from Cons.prems obtain ml1 s1 where
      1: "run_epoch fw n dl g og d od adv_loss ld nc dev e ml s = (Ok ml1, s1)"
    and 2: "for_each (run_epoch fw n dl g og d od adv_loss ld nc dev) es ml1 s1 = (Ok ml', s')"
    by (auto simp: bind_Ok)
  from run_epoch_Ok [OF 1] obtain vg vd where
    v: "loss_generator ml1 = loss_generator ml @ [vg]"
       "loss_discriminator ml1 = loss_discriminator ml @ [vd]"
    by auto
  from Cons.IH [OF 2] obtain gs ds where
    r: "length gs = length es" "length ds = length es"
       "loss_generator ml' = loss_generator ml1 @ gs"
       "loss_discriminator ml' = loss_discriminator ml1 @ ds"
    by blast
  from v r have "length (vg # gs) = length (e # es) \<and> length (vd # ds) = length (e # es) \<and>
      loss_generator ml' = loss_generator ml @ (vg # gs) \<and>
      loss_discriminator ml' = loss_discriminator ml @ (vd # ds)" by simp
  then show ?case by blast
qed

lemma for_each_epochs_plot:
  "frame (obs is_loss_plot) (for_each (run_epoch fw n dl g og d od adv_loss ld nc dev) es ml)"
  by (rule frame_for_each, rule run_epoch_obs; simp)

text \<open>
  Claim C3. An epoch that returns has appended exactly one generator loss and one
  discriminator loss to the history it was given and changed nothing before them;
  so after any number of epochs the history is the initial one followed by one value
  per epoch in each list. The history is local to \<open>train_model\<close>: a call that returns
  has shown, as its only loss plot, a history of exactly \<open>epochs\<close> values per list,
  whatever ran before it, and it returns nothing.
\<close>

theorem loss_history_append_only:
  "(run_epoch fw n dl g og d od adv_loss ld nc dev e ml s = (Ok ml', s') \<longrightarrow>
      (\<exists>vg vd. loss_generator ml' = loss_generator ml @ [vg] \<and>
               loss_discriminator ml' = loss_discriminator ml @ [vd])) \<and>
   (for_each (run_epoch fw n dl g og d od adv_loss ld nc dev) es ml t = (Ok ml'', t') \<longrightarrow>
      (\<exists>gs ds. length gs = length es \<and> length ds = length es \<and>
               loss_generator ml'' = loss_generator ml @ gs \<and>
               loss_discriminator ml'' = loss_discriminator ml @ ds)) \<and>
   (train_model fw n dl g og d od adv_loss ld nc dev u = (Ok x, u') \<longrightarrow>
      (\<exists>gs ds. length gs = n \<and> length ds = n \<and>
               filter is_loss_plot (trace u') =
                 filter is_loss_plot (trace u) @
                 [Shown (LossPlot [(''generator'', gs), (''discriminator'', ds)])]))"
proof (intro conjI impI)
  assume "run_epoch fw n dl g og d od adv_loss ld nc dev e ml s = (Ok ml', s')"
  from run_epoch_Ok [OF this]
  show "\<exists>vg vd. loss_generator ml' = loss_generator ml @ [vg] \<and>
               loss_discriminator ml' = loss_discriminator ml @ [vd]" by auto
next
  assume "for_each (run_epoch fw n dl g og d od adv_loss ld nc dev) es ml t = (Ok ml'', t')"
  then show "\<exists>gs ds. length gs = length es \<and> length ds = length es \<and>
               loss_generator ml'' = loss_generator ml @ gs \<and>
               loss_discriminator ml'' = loss_discriminator ml @ ds"
    by (rule for_each_epochs_Ok)
next
  assume "train_model fw n dl g og d od adv_loss ld nc dev u = (Ok x, u')"
  then obtain h u1 where
      1: "for_each (run_epoch fw n dl g og d od adv_loss ld nc dev) [0..<n]
            \<lparr>loss_generator = [], loss_discriminator = []\<rparr> u = (Ok h, u1)"
    and 2: "plot_loss fw h u1 = (Ok x, u')"
    unfolding train_model_def by (auto simp: bind_Ok)
  from for_each_epochs_Ok [OF 1] have len: "length (loss_generator h) = n"
    "length (loss_discriminator h) = n" by auto
  from frameD2 [OF for_each_epochs_plot 1]
  have "filter is_loss_plot (trace u1) = filter is_loss_plot (trace u)" by (simp add: obs_def)
  with plot_loss_Ok [OF 2] have
    "filter is_loss_plot (trace u') = filter is_loss_plot (trace u) @
       [Shown (LossPlot [(''generator'', loss_generator h),
                         (''discriminator'', loss_discriminator h)])]"
    by simp
  with len show "\<exists>gs ds. length gs = n \<and> length ds = n \<and>
               filter is_loss_plot (trace u') =
                 filter is_loss_plot (trace u) @
                 [Shown (LossPlot [(''generator'', gs), (''discriminator'', ds)])]"
    by blast
qed

theorem loss_history_append_only_witness:
  "\<exists>gs ds. length gs = 1 \<and> length ds = 1 \<and>
     filter is_loss_plot (trace (snd (train_model demo_fw 1 demo_dataloader demo_generator
        demo_optimizer_G demo_discriminator demo_optimizer_D MSELoss 1 2 CPU demo_state))) =
       [Shown (LossPlot [(''generator'', gs), (''discriminator'', ds)])]"
proof -
  let ?run = "train_model demo_fw 1 demo_dataloader demo_generator demo_optimizer_G
          demo_discriminator demo_optimizer_D MSELoss 1 2 CPU demo_state"
  have run: "?run = (Ok (), snd ?run)"
    using demo_run_ok by (cases ?run) simp
  have start: "filter is_loss_plot (trace demo_state) = []"
    by (simp add: demo_state_def)
  from loss_history_append_only [THEN conjunct2, THEN conjunct2, rule_format, OF run]
  show ?thesis by (simp add: start)
qed

end
